theory Spec2Isabelle
  imports Complex_Main "HOL-Library.AList"
begin

section \<open>Data model\<close>

text \<open>
  Python floats are modelled as real numbers.  Where the rounding of float64 arithmetic
  decides which branch the code takes, in the execution unit, the rounding is a parameter
  of the model; elsewhere the arithmetic is exact.  A Python
  exception is a value: an operation returns \<open>Ok s\<close> with the new object state, or
  \<open>Raised e s\<close> with the exception and the state the object was left in when it
  was raised.  Timestamps are integers (seconds); the wall-clock \<open>timestamp\<close> field
  of a Portfolio, which no computation reads, is left out.
\<close>

datatype py_error = ValueError string | ZeroDivisionError | StrategyException

datatype 'a outcome = Ok 'a | Raised py_error 'a

fun state_of :: "'a outcome \<Rightarrow> 'a" where
  "state_of (Ok s) = s"
| "state_of (Raised e s) = s"

fun is_ok :: "'a outcome \<Rightarrow> bool" where
  "is_ok (Ok s) = True"
| "is_ok (Raised e s) = False"

text \<open>models/portfolio.py: Portfolio and Trade.  A dict is an association list in
  insertion order; \<open>map_of\<close> reads it and \<open>AList.update\<close> writes it.\<close>

record Portfolio =
  total_value :: real
  cash :: real
  positions :: "(string \<times> real) list"
  unrealized_pnl :: real
  realized_pnl :: real

record Trade =
  trade_timestamp :: int
  trade_symbol :: string
  trade_side :: string
  trade_quantity :: real
  trade_price :: real
  trade_value :: real
  trade_algorithm :: string
  trade_commission :: real

text \<open>A strategy signal: the dict with keys 'action' and 'quantity'.\<close>

record signal =
  action :: string
  quantity :: real

text \<open>The fields that HistoricalSimulator and RealtimeSimulator share.\<close>

record simulator =
  algorithm_name :: string
  initial_capital :: real
  symbols :: "string list"
  portfolio :: Portfolio
  trades :: "Trade list"
  peak_value :: real
  max_drawdown :: real

text \<open>Portfolio(initial_capital): the constructor called with no keyword data.\<close>

definition new_Portfolio :: "real \<Rightarrow> Portfolio" where
  "new_Portfolio ic =
     \<lparr>total_value = ic, cash = ic, positions = [], unrealized_pnl = 0, realized_pnl = 0\<rparr>"

text \<open>positions.get(symbol, 0)\<close>

definition held :: "(string \<times> real) list \<Rightarrow> string \<Rightarrow> real" where
  "held ps symb = (case map_of ps symb of Some q \<Rightarrow> q | None \<Rightarrow> 0)"

section \<open>Execution unit: \_execute\_trade (historical.py 234-284, realtime.py 198-250)\<close>

text \<open>
  The function computes in float64, and two things of that arithmetic decide which branch
  it takes.  Both are parameters of the model.

  \<^item> \<open>rnd\<close> is the rounding of the float operations: every arithmetic operation
    returns \<open>rnd\<close> of its exact result.  After rounding, the cost
    (cash / price) * price of a capped buy can exceed the cash; then the test
    cost <= available\_cash fails and nothing is executed.

  \<^item> \<open>numpy_price\<close> says whether the price is a numpy float64, as in the
    scheduled-replay driver, which reads it from a DataFrame, or a Python float, as in the
    live driver, which gets it from the feed.  At price 0 the division
    available\_cash / price raises ZeroDivisionError on a Python float.  On a numpy
    float it yields inf, nan or -inf: with cash that is not negative,
    min(quantity, max\_quantity) is then the requested quantity, bought at cost 0; with
    negative cash it is -inf, and the cost nan fails the test.

  Overflow to an infinity of a finite result is not modelled.
\<close>

definition execute_trade_float ::
  "(real \<Rightarrow> real) \<Rightarrow> bool \<Rightarrow> string \<Rightarrow> signal \<Rightarrow> real \<Rightarrow> int
     \<Rightarrow> 'a simulator_scheme \<Rightarrow> 'a simulator_scheme outcome" where
  "execute_trade_float rnd numpy_price symb sg pr ts s =
     (if action sg = ''buy'' \<and> 0 < quantity sg then
        (let available_cash = cash (portfolio s) in
         if pr = 0 \<and> \<not> numpy_price then Raised ZeroDivisionError s
         else if pr = 0 \<and> available_cash < 0 then Ok s
         else
           let qty = (if pr = 0 then quantity sg
                      else min (quantity sg) (rnd (available_cash / pr)));
               cost = rnd (qty * pr)
           in if cost \<le> available_cash then
                Ok (s\<lparr>portfolio := (portfolio s)
                        \<lparr>cash := rnd (available_cash - cost),
                         positions := AList.update symb
                                        (rnd (held (positions (portfolio s)) symb + qty))
                                        (positions (portfolio s))\<rparr>,
                      trades := trades s @
                        [\<lparr>trade_timestamp = ts, trade_symbol = symb, trade_side = ''buy'',
                          trade_quantity = qty, trade_price = pr, trade_value = cost,
                          trade_algorithm = algorithm_name s, trade_commission = 0\<rparr>]\<rparr>)
              else Ok s)
      else if action sg = ''sell'' \<and> 0 < quantity sg then
        (let available_quantity = held (positions (portfolio s)) symb;
             qty = min (quantity sg) available_quantity
         in if 0 < qty then
              (let proceeds = rnd (qty * pr) in
               Ok (s\<lparr>portfolio := (portfolio s)
                       \<lparr>cash := rnd (cash (portfolio s) + proceeds),
                        positions := AList.update symb
                                       (rnd (held (positions (portfolio s)) symb - qty))
                                       (positions (portfolio s))\<rparr>,
                     trades := trades s @
                       [\<lparr>trade_timestamp = ts, trade_symbol = symb, trade_side = ''sell'',
                         trade_quantity = qty, trade_price = pr, trade_value = proceeds,
                         trade_algorithm = algorithm_name s, trade_commission = 0\<rparr>]\<rparr>))
            else Ok s)
      else Ok s)"

text \<open>What the properties of the execution unit need of the rounding: it is monotone and
  it keeps 0, as every IEEE 754 rounding mode does.\<close>

definition rounding :: "(real \<Rightarrow> real) \<Rightarrow> bool" where
  "rounding rnd \<longleftrightarrow> mono rnd \<and> rnd 0 = 0"

text \<open>A rounding to run examples with: to the nearest hundredth.\<close>

definition round_cents :: "real \<Rightarrow> real" where
  "round_cents x = real_of_int (round (x * 100)) / 100"

text \<open>The function in exact arithmetic on a Python float price: the instance on which the
  properties that no rounding affects are stated.\<close>

definition execute_trade ::
  "string \<Rightarrow> signal \<Rightarrow> real \<Rightarrow> int \<Rightarrow> 'a simulator_scheme \<Rightarrow> 'a simulator_scheme outcome" where
  "execute_trade = execute_trade_float (\<lambda>x. x) False"

text \<open>A sequence of executions (symbol, signal, fill price, timestamp), one after the
  other on the same simulator; an exception ends the sequence.\<close>

fun execute_trades_float ::
  "(real \<Rightarrow> real) \<Rightarrow> bool \<Rightarrow> (string \<times> signal \<times> real \<times> int) list
     \<Rightarrow> 'a simulator_scheme \<Rightarrow> 'a simulator_scheme outcome" where
  "execute_trades_float rnd numpy_price [] s = Ok s"
| "execute_trades_float rnd numpy_price ((symb, sg, pr, ts) # xs) s =
     (case execute_trade_float rnd numpy_price symb sg pr ts s of
        Ok s' \<Rightarrow> execute_trades_float rnd numpy_price xs s'
      | Raised e s' \<Rightarrow> Raised e s')"

fun execute_trades ::
  "(string \<times> signal \<times> real \<times> int) list \<Rightarrow> 'a simulator_scheme \<Rightarrow> 'a simulator_scheme outcome" where
  "execute_trades [] s = Ok s"
| "execute_trades ((symb, sg, pr, ts) # xs) s =
     (case execute_trade symb sg pr ts s of
        Ok s' \<Rightarrow> execute_trades xs s'
      | Raised e s' \<Rightarrow> Raised e s')"

section \<open>Valuation: \_update\_portfolio\_value (historical.py 215-232, realtime.py 179-196)\<close>

text \<open>The loop over positions.items(): a position whose symbol is not in
  current\_prices is skipped.\<close>

fun position_values :: "(string \<rightharpoonup> real) \<Rightarrow> (string \<times> real) list \<Rightarrow> real \<Rightarrow> real" where
  "position_values current_prices [] tv = tv"
| "position_values current_prices ((symb, q) # ps) tv =
     (case current_prices symb of
        Some p \<Rightarrow> position_values current_prices ps (tv + q * p)
      | None \<Rightarrow> position_values current_prices ps tv)"

definition update_portfolio_value ::
  "(string \<rightharpoonup> real) \<Rightarrow> 'a simulator_scheme \<Rightarrow> 'a simulator_scheme outcome" where
  "update_portfolio_value current_prices s =
     (let tv = position_values current_prices (positions (portfolio s)) (cash (portfolio s));
          s1 = s\<lparr>portfolio := (portfolio s)\<lparr>total_value := tv\<rparr>\<rparr>;
          s2 = (if tv > peak_value s1 then s1\<lparr>peak_value := tv\<rparr> else s1)
      in if peak_value s2 = 0 then Raised ZeroDivisionError s2
         else
           let current_drawdown = (peak_value s2 - tv) / peak_value s2
           in if current_drawdown > max_drawdown s2
              then Ok (s2\<lparr>max_drawdown := current_drawdown\<rparr>)
              else Ok s2)"

section \<open>Construction and example objects\<close>

text \<open>The part of \_\_init\_\_ that both simulators share: a fresh portfolio holding
  the initial capital in cash, an empty ledger, peak value at the initial capital and
  no drawdown.\<close>

definition new_simulator :: "string \<Rightarrow> real \<Rightarrow> string list \<Rightarrow> simulator" where
  "new_simulator name ic syms =
     \<lparr>algorithm_name = name, initial_capital = ic, symbols = syms,
      portfolio = new_Portfolio ic, trades = [], peak_value = ic, max_drawdown = 0\<rparr>"

definition buy_signal :: "real \<Rightarrow> signal" where
  "buy_signal q = \<lparr>action = ''buy'', quantity = q\<rparr>"

definition sell_signal :: "real \<Rightarrow> signal" where
  "sell_signal q = \<lparr>action = ''sell'', quantity = q\<rparr>"

definition hold_signal :: signal where
  "hold_signal = \<lparr>action = ''hold'', quantity = 0\<rparr>"

text \<open>A simulator with 10000 of capital, after buying 50 BTC at 100.\<close>

definition sim_10000 :: simulator where
  "sim_10000 = new_simulator ''SimpleMomentumStrategy'' 10000 [''BTC'']"

definition sim_after_buy :: simulator where
  "sim_after_buy = state_of (execute_trade ''BTC'' (buy_signal 50) 100 0 sim_10000)"

definition sim_marked_priced :: simulator where
  "sim_marked_priced = state_of (update_portfolio_value [''BTC'' \<mapsto> 100] sim_after_buy)"

definition sim_marked_unpriced :: simulator where
  "sim_marked_unpriced = state_of (update_portfolio_value Map.empty sim_marked_priced)"

text \<open>A simulator with 200 of capital, for the examples in rounded arithmetic.\<close>

definition sim_200 :: simulator where
  "sim_200 = new_simulator ''SimpleMomentumStrategy'' 200 [''BTC'']"

text \<open>The simulator with 10000 of capital after a buy of 150 BTC at 100 that the cash
  caps at 100 BTC: all the cash is spent.\<close>

definition sim_all_in :: simulator where
  "sim_all_in = state_of (execute_trade ''BTC'' (buy_signal 150) 100 0 sim_10000)"


section \<open>Runs of valuations and executions\<close>

text \<open>What a driver does to the shared fields, tick after tick: it marks the portfolio
  to a price mapping (\_update\_portfolio\_value) and it executes signals
  (\_execute\_trade).  An exception ends the run.\<close>

datatype event = Mark "string \<rightharpoonup> real" | Exec string signal real int

fun step :: "event \<Rightarrow> 'a simulator_scheme \<Rightarrow> 'a simulator_scheme outcome" where
  "step (Mark current_prices) s = update_portfolio_value current_prices s"
| "step (Exec symb sg pr ts) s = execute_trade symb sg pr ts s"

fun run_events :: "event list \<Rightarrow> 'a simulator_scheme \<Rightarrow> 'a simulator_scheme outcome" where
  "run_events [] s = Ok s"
| "run_events (e # es) s =
     (case step e s of
        Ok s' \<Rightarrow> run_events es s'
      | Raised err s' \<Rightarrow> Raised err s')"

text \<open>The total values marked along a run, one per valuation that returned.\<close>

fun marked_values :: "event list \<Rightarrow> 'a simulator_scheme \<Rightarrow> real list" where
  "marked_values [] s = []"
| "marked_values (e # es) s =
     (case step e s of
        Ok s' \<Rightarrow> (case e of Mark current_prices \<Rightarrow> [total_value (portfolio s')] | _ \<Rightarrow> [])
                 @ marked_values es s'
      | Raised err s' \<Rightarrow> [])"

text \<open>The drawdown statistic in the words of the specification: the peak so far at tick
  \<open>i\<close> is the maximum of the initial capital and the total values marked up to and
  including tick \<open>i\<close>; the statistic is the maximum over all ticks of
  (peak so far - value) / peak so far.\<close>

definition peak_so_far :: "real \<Rightarrow> real list \<Rightarrow> nat \<Rightarrow> real" where
  "peak_so_far ic vs i = Max (set (ic # take (Suc i) vs))"

definition drawdown_at :: "real \<Rightarrow> real list \<Rightarrow> nat \<Rightarrow> real" where
  "drawdown_at ic vs i = (peak_so_far ic vs i - vs ! i) / peak_so_far ic vs i"

definition max_drawdown_spec :: "real \<Rightarrow> real list \<Rightarrow> real" where
  "max_drawdown_spec ic vs = Max (set (map (drawdown_at ic vs) [0..<length vs]))"

text \<open>The scenario of the specification: capital 10000, one symbol priced
  100, 100, 110, 90, 90 over five ticks, a buy of 50 at the first tick.\<close>

definition scenario_events :: "event list" where
  "scenario_events =
     [Mark [''BTC'' \<mapsto> 100], Exec ''BTC'' (buy_signal 50) 100 0,
      Mark [''BTC'' \<mapsto> 100], Mark [''BTC'' \<mapsto> 110],
      Mark [''BTC'' \<mapsto> 90], Mark [''BTC'' \<mapsto> 90]]"

section \<open>Scheduled-replay driver: HistoricalSimulator (historical.py)\<close>

text \<open>A DataFrame is the list of its rows in index order, each row the timestamp of the
  index and the closing price (the only column the engine reads; timestamps in the index
  are taken to be unique, so that \<open>.loc\<close> yields one price).  historical\_data is
  the dict from symbol to DataFrame.\<close>

type_synonym dataframe = "(int \<times> real) list"

type_synonym market_data = "(string \<times> dataframe) list"

text \<open>The strategy is a black box: generate\_signals(timestamp, data, portfolio) returns
  the dict of signals or raises.\<close>

type_synonym strategy = "int \<Rightarrow> market_data \<Rightarrow> Portfolio \<Rightarrow> py_error + (string \<times> signal) list"

text \<open>The data provider is a black box too: for a symbol, the DataFrame that
  get\_historical\_data returns for the requested range, with its indicators.\<close>

type_synonym provider = "string \<Rightarrow> dataframe"

text \<open>A portfolio-history entry: the live driver stores the first six keys, the
  scheduled-replay driver adds the benchmark value.\<close>

record snapshot =
  entry_timestamp :: int
  entry_total_value :: real
  entry_cash :: real
  entry_positions :: "(string \<times> real) list"
  entry_unrealized_pnl :: real
  entry_realized_pnl :: real

record history_entry = snapshot +
  entry_benchmark_value :: real

record HistoricalSimulator = simulator +
  portfolio_history :: "history_entry list"
  benchmark_values :: "real list"
  benchmark_returns :: "real list"
  last_benchmark_date :: "int option"

definition new_HistoricalSimulator :: "string \<Rightarrow> real \<Rightarrow> string list \<Rightarrow> HistoricalSimulator" where
  "new_HistoricalSimulator name ic syms =
     \<lparr>algorithm_name = name, initial_capital = ic, symbols = syms,
      portfolio = new_Portfolio ic, trades = [], peak_value = ic, max_drawdown = 0,
      portfolio_history = [], benchmark_values = [], benchmark_returns = [],
      last_benchmark_date = None\<rparr>"

definition reset_benchmark :: "HistoricalSimulator \<Rightarrow> HistoricalSimulator" where
  "reset_benchmark s = s\<lparr>benchmark_values := [], benchmark_returns := [], last_benchmark_date := None\<rparr>"

definition reset_simulation :: "HistoricalSimulator \<Rightarrow> HistoricalSimulator" where
  "reset_simulation s =
     reset_benchmark
       (s\<lparr>portfolio := new_Portfolio (initial_capital s), trades := [], portfolio_history := [],
          peak_value := initial_capital s, max_drawdown := 0\<rparr>)"

subsection \<open>\_calculate\_benchmark\_value (historical.py 149-194)\<close>

text \<open>The body of the loop over self.symbols, on the accumulators total\_return and
  valid\_symbols.  With unique timestamps and real prices nothing in it raises, so the two
  exception handlers of the source have no branch here.\<close>

definition benchmark_symbol ::
  "int \<Rightarrow> market_data \<Rightarrow> int option \<Rightarrow> string \<Rightarrow> real \<times> nat \<Rightarrow> real \<times> nat" where
  "benchmark_symbol current_date historical_data last_date symb acc =
     (case map_of historical_data symb of
        None \<Rightarrow> acc
      | Some df \<Rightarrow>
          (case map_of df current_date of
             None \<Rightarrow> acc
           | Some current_price \<Rightarrow>
               (case last_date of
                  None \<Rightarrow> acc
                | Some d \<Rightarrow>
                    (case map_of df d of
                       None \<Rightarrow> acc
                     | Some prev_price \<Rightarrow>
                         if prev_price > 0
                         then (fst acc + (current_price - prev_price) / prev_price, Suc (snd acc))
                         else acc))))"

definition calculate_benchmark_value ::
  "int \<Rightarrow> market_data \<Rightarrow> HistoricalSimulator \<Rightarrow> real \<times> HistoricalSimulator" where
  "calculate_benchmark_value current_date historical_data s =
     (if benchmark_values s = [] then
        (initial_capital s, s\<lparr>last_benchmark_date := Some current_date\<rparr>)
      else
        let prev_benchmark = last (benchmark_values s);
            acc = fold (benchmark_symbol current_date historical_data (last_benchmark_date s))
                    (symbols s) (0, 0);
            total_return = fst acc;
            valid_symbols = snd acc;
            s' = s\<lparr>last_benchmark_date := Some current_date\<rparr>
        in if valid_symbols > 0
           then (prev_benchmark * (1 + total_return / real valid_symbols), s')
           else (prev_benchmark, s'))"

subsection \<open>\_process\_day (historical.py 196-213)\<close>

text \<open>current\_prices: the closing price of every symbol whose DataFrame has the
  current date in its index.\<close>

definition prices_at :: "market_data \<Rightarrow> int \<Rightarrow> (string \<rightharpoonup> real)" where
  "prices_at historical_data current_date =
     (\<lambda>symb. case map_of historical_data symb of
                None \<Rightarrow> None
              | Some df \<Rightarrow> map_of df current_date)"

text \<open>The loop over signals.items(), the same in both drivers: a signal whose symbol
  has no current price is skipped.  The drivers are modelled in exact arithmetic; the flag
  says which kind of float their prices are.\<close>

fun execute_signals ::
  "bool \<Rightarrow> (string \<rightharpoonup> real) \<Rightarrow> int \<Rightarrow> (string \<times> signal) list \<Rightarrow> 'a simulator_scheme
     \<Rightarrow> 'a simulator_scheme outcome" where
  "execute_signals numpy_price current_prices ts [] s = Ok s"
| "execute_signals numpy_price current_prices ts ((symb, sg) # rest) s =
     (case current_prices symb of
        None \<Rightarrow> execute_signals numpy_price current_prices ts rest s
      | Some pr \<Rightarrow>
          (case execute_trade_float (\<lambda>x. x) numpy_price symb sg pr ts s of
             Ok s' \<Rightarrow> execute_signals numpy_price current_prices ts rest s'
           | Raised e s' \<Rightarrow> Raised e s'))"

definition process_day ::
  "strategy \<Rightarrow> int \<Rightarrow> market_data \<Rightarrow> HistoricalSimulator \<Rightarrow> HistoricalSimulator outcome" where
  "process_day algorithm current_date historical_data s =
     (let current_prices = prices_at historical_data current_date in
      case update_portfolio_value current_prices s of
        Raised e s' \<Rightarrow> Raised e s'
      | Ok s1 \<Rightarrow>
          (case algorithm current_date historical_data (portfolio s1) of
             Inl e \<Rightarrow> Raised e s1
           | Inr signals \<Rightarrow> execute_signals True current_prices current_date signals s1))"

subsection \<open>run (historical.py 87-147)\<close>

text \<open>The loop that fetches the data: a symbol with an empty DataFrame gets no entry.\<close>

definition fetch_all :: "provider \<Rightarrow> string list \<Rightarrow> market_data" where
  "fetch_all data_provider syms =
     fold (\<lambda>symb historical_data.
             if data_provider symb \<noteq> [] then AList.update symb (data_provider symb) historical_data
             else historical_data) syms []"

definition min_date :: "market_data \<Rightarrow> int" where
  "min_date historical_data = Max (set (map (\<lambda>(symb, df). Min (set (map fst df))) historical_data))"

definition max_date :: "market_data \<Rightarrow> int" where
  "max_date historical_data = Min (set (map (\<lambda>(symb, df). Max (set (map fst df))) historical_data))"

text \<open>What one pass of the loop does after \_process\_day, with current\_date already
  advanced by one hour: the benchmark value is computed and appended, then the history
  entry is appended.\<close>

definition record_tick :: "int \<Rightarrow> market_data \<Rightarrow> HistoricalSimulator \<Rightarrow> HistoricalSimulator" where
  "record_tick current_date historical_data s =
     (let r = calculate_benchmark_value current_date historical_data s;
          benchmark_value = fst r;
          s1 = (snd r)\<lparr>benchmark_values := benchmark_values (snd r) @ [benchmark_value]\<rparr>
      in s1\<lparr>portfolio_history := portfolio_history s1 @
            [\<lparr>entry_timestamp = current_date,
              entry_total_value = total_value (portfolio s1),
              entry_cash = cash (portfolio s1),
              entry_positions = positions (portfolio s1),
              entry_unrealized_pnl = unrealized_pnl (portfolio s1),
              entry_realized_pnl = realized_pnl (portfolio s1),
              entry_benchmark_value = benchmark_value\<rparr>]\<rparr>)"

function run_loop ::
  "strategy \<Rightarrow> market_data \<Rightarrow> int \<Rightarrow> int \<Rightarrow> HistoricalSimulator \<Rightarrow> HistoricalSimulator outcome" where
  "run_loop algorithm historical_data last_date current_date s =
     (if current_date \<le> last_date then
        (case process_day algorithm current_date historical_data s of
           Raised e s' \<Rightarrow> Raised e s'
         | Ok s1 \<Rightarrow>
             run_loop algorithm historical_data last_date (current_date + 3600)
               (record_tick (current_date + 3600) historical_data s1))
      else Ok s)"
  by pat_completeness auto
termination
  by (relation "measure (\<lambda>(algorithm, historical_data, last_date, current_date, s).
        nat (last_date + 1 - current_date))") auto

definition run :: "strategy \<Rightarrow> provider \<Rightarrow> HistoricalSimulator \<Rightarrow> HistoricalSimulator outcome" where
  "run algorithm data_provider s =
     (let s0 = reset_simulation s;
          historical_data = fetch_all data_provider (symbols s0)
      in if historical_data = [] then
           Raised (ValueError ''No historical data available for any symbol'') s0
         else run_loop algorithm historical_data (max_date historical_data)
                (min_date historical_data) s0)"

subsection \<open>The benchmark update in the words of the specification\<close>

text \<open>A symbol has valid data between the reference timestamp \<open>d\<close> and the current tick
  \<open>t\<close> when it has a price at both and the price at \<open>d\<close>, by which the return
  divides, is positive.  The benchmark moves by the arithmetic mean of the simple returns
  of the symbols with valid data.\<close>

definition has_valid_data :: "market_data \<Rightarrow> int \<Rightarrow> int \<Rightarrow> string \<Rightarrow> bool" where
  "has_valid_data historical_data d t symb =
     (case prices_at historical_data t symb of
        None \<Rightarrow> False
      | Some p_now \<Rightarrow>
          (case prices_at historical_data d symb of
             None \<Rightarrow> False
           | Some p_prev \<Rightarrow> 0 < p_prev))"

definition simple_return :: "market_data \<Rightarrow> int \<Rightarrow> int \<Rightarrow> string \<Rightarrow> real" where
  "simple_return historical_data d t symb =
     (the (prices_at historical_data t symb) - the (prices_at historical_data d symb))
       / the (prices_at historical_data d symb)"

definition valid_returns :: "market_data \<Rightarrow> int \<Rightarrow> int \<Rightarrow> string list \<Rightarrow> real list" where
  "valid_returns historical_data d t syms =
     map (simple_return historical_data d t) (filter (has_valid_data historical_data d t) syms)"

definition mean :: "real list \<Rightarrow> real" where
  "mean xs = sum_list xs / real (length xs)"

text \<open>A constant price series: all the rows of a symbol's DataFrame close at the same
  price.\<close>

definition constant_prices :: "market_data \<Rightarrow> bool" where
  "constant_prices historical_data \<longleftrightarrow>
     (\<forall>(symb, df) \<in> set historical_data. \<forall>r \<in> set df. \<forall>r' \<in> set df. snd r = snd r')"

subsection \<open>Example data, strategies and simulators\<close>

definition provider_rising :: provider where
  "provider_rising symb = (if symb = ''BTC'' then [(0, 100), (3600, 110)] else [])"

definition provider_flat :: provider where
  "provider_flat symb =
     (if symb = ''BTC'' then [(0, 100), (3600, 100), (7200, 100)]
      else if symb = ''ETH'' then [(0, 2000), (3600, 2000), (7200, 2000)]
      else [])"

definition provider_disjoint :: provider where
  "provider_disjoint symb =
     (if symb = ''BTC'' then [(0, 100), (3600, 110)]
      else if symb = ''ETH'' then [(36000, 2000), (39600, 2000)]
      else [])"

definition provider_empty :: provider where
  "provider_empty symb = []"

definition no_signals :: strategy where
  "no_signals ts historical_data p = Inr []"

definition buy_at_start :: strategy where
  "buy_at_start ts historical_data p =
     Inr (if ts = 0 then [(''BTC'', buy_signal 50)] else [])"

definition failing_strategy :: strategy where
  "failing_strategy ts historical_data p = Inl StrategyException"

text \<open>A strategy that asks, at the first tick, for 150 BTC and then for 1 ETH.\<close>

definition buy_both_at_start :: strategy where
  "buy_both_at_start ts historical_data p =
     Inr (if ts = 0 then [(''BTC'', buy_signal 150), (''ETH'', buy_signal 1)] else [])"

definition hist_btc :: HistoricalSimulator where
  "hist_btc = new_HistoricalSimulator ''SimpleMomentumStrategy'' 10000 [''BTC'']"

definition hist_btc_eth :: HistoricalSimulator where
  "hist_btc_eth = new_HistoricalSimulator ''SimpleMomentumStrategy'' 10000 [''BTC'', ''ETH'']"

text \<open>Two symbols that return +10 percent and -10 percent over one tick, and a tracker
  that has recorded its first value at timestamp 0.\<close>

definition data_up_down :: market_data where
  "data_up_down = [(''BTC'', [(0, 100), (3600, 110)]), (''ETH'', [(0, 2000), (3600, 1800)])]"

definition hist_tracking :: HistoricalSimulator where
  "hist_tracking = hist_btc_eth\<lparr>benchmark_values := [10000], last_benchmark_date := Some 0\<rparr>"

section \<open>Live driver: RealtimeSimulator (realtime.py)\<close>

record RealtimeSimulator = simulator +
  rt_portfolio_history :: "snapshot list"
  price_history :: "(string \<times> (int \<times> real) list) list"
  is_running :: bool
  current_prices :: "(string \<times> real) list"
  historical_data_cache :: market_data

definition new_RealtimeSimulator :: "string \<Rightarrow> real \<Rightarrow> string list \<Rightarrow> RealtimeSimulator" where
  "new_RealtimeSimulator name ic syms =
     \<lparr>algorithm_name = name, initial_capital = ic, symbols = syms,
      portfolio = new_Portfolio ic, trades = [], peak_value = ic, max_drawdown = 0,
      rt_portfolio_history = [],
      price_history = fold (\<lambda>symb ph. AList.update symb [] ph) syms [],
      is_running = False, current_prices = [], historical_data_cache = []\<rparr>"

text \<open>xs[-n:] for a positive n\<close>

definition last_n :: "nat \<Rightarrow> 'a list \<Rightarrow> 'a list" where
  "last_n n xs = drop (length xs - n) xs"

text \<open>\_generate\_signals (realtime.py 171-177): an exception of the strategy is caught
  and the empty dict of signals is returned.\<close>

definition generate_signals :: "strategy \<Rightarrow> int \<Rightarrow> RealtimeSimulator \<Rightarrow> (string \<times> signal) list" where
  "generate_signals algorithm ts s =
     (case algorithm ts (historical_data_cache s) (portfolio s) of
        Inl e \<Rightarrow> []
      | Inr signals \<Rightarrow> signals)"

text \<open>\_update\_historical\_cache (realtime.py 143-169): a row with the new price is
  appended to the cached DataFrame of every priced symbol that has one, and the last 1000
  rows are kept.\<close>

definition update_historical_cache ::
  "int \<Rightarrow> (string \<times> real) list \<Rightarrow> RealtimeSimulator \<Rightarrow> RealtimeSimulator" where
  "update_historical_cache ts prices s =
     s\<lparr>historical_data_cache :=
         fold (\<lambda>(symb, pr) cache.
                 case map_of cache symb of
                   None \<Rightarrow> cache
                 | Some df \<Rightarrow>
                     (let df' = df @ [(ts, pr)]
                      in AList.update symb (if length df' > 1000 then last_n 1000 df' else df') cache))
              prices (historical_data_cache s)\<rparr>"

text \<open>\_process\_realtime\_update (realtime.py 95-141), called once per price update with
  the wall-clock time of the call.\<close>

definition process_realtime_update ::
  "strategy \<Rightarrow> int \<Rightarrow> (string \<times> real) list \<Rightarrow> RealtimeSimulator \<Rightarrow> RealtimeSimulator outcome" where
  "process_realtime_update algorithm current_time prices s =
     (if \<not> is_running s then Ok s
      else
        let s1 = s\<lparr>current_prices := prices\<rparr>;
            s2 = s1\<lparr>price_history :=
                   fold (\<lambda>(symb, pr) ph.
                           case map_of ph symb of
                             None \<Rightarrow> ph
                           | Some h \<Rightarrow>
                               (let h' = h @ [(current_time, pr)]
                                in AList.update symb
                                     (if length h' > 1000 then last_n 1000 h' else h') ph))
                        prices (price_history s1)\<rparr>
        in case update_portfolio_value (map_of prices) s2 of
             Raised e s' \<Rightarrow> Raised e s'
           | Ok s3 \<Rightarrow>
               (let s4 = update_historical_cache current_time prices s3;
                    signals = generate_signals algorithm current_time s4
                in case execute_signals False (map_of prices) current_time signals s4 of
                     Raised e s' \<Rightarrow> Raised e s'
                   | Ok s5 \<Rightarrow>
                       (let s6 = s5\<lparr>rt_portfolio_history := rt_portfolio_history s5 @
                                   [\<lparr>entry_timestamp = current_time,
                                     entry_total_value = total_value (portfolio s5),
                                     entry_cash = cash (portfolio s5),
                                     entry_positions = positions (portfolio s5),
                                     entry_unrealized_pnl = unrealized_pnl (portfolio s5),
                                     entry_realized_pnl = realized_pnl (portfolio s5)\<rparr>]\<rparr>
                        in Ok (if length (rt_portfolio_history s6) > 1000
                               then s6\<lparr>rt_portfolio_history := last_n 1000 (rt_portfolio_history s6)\<rparr>
                               else s6))))"

text \<open>A live simulator that has been started (run sets is\_running) and holds no cached
  history.\<close>

definition rt_btc :: RealtimeSimulator where
  "rt_btc = (new_RealtimeSimulator ''SimpleMomentumStrategy'' 10000 [''BTC''])\<lparr>is_running := True\<rparr>"

section \<open>Performance metrics of the live driver: get\_performance\_metrics (realtime.py 268-303)\<close>

text \<open>A metric is a float64 that may be non-finite, so the values of this function are
  modelled with the non-finite members of the type: a finite number, an infinity, or NaN.
  The arithmetic is IEEE 754 as numpy applies it to arrays (a division by zero yields an
  infinity or NaN, NaN propagates, a comparison with NaN is false), without rounding or
  overflow of finite results and without the sign of zero (a non-zero finite number
  divided by zero is the infinity of the dividend's sign).\<close>

datatype float64 = Fin real | PInf | NInf | NaN

fun is_finite :: "float64 \<Rightarrow> bool" where
  "is_finite (Fin a) = True"
| "is_finite PInf = False"
| "is_finite NInf = False"
| "is_finite NaN = False"

fun fneg :: "float64 \<Rightarrow> float64" where
  "fneg (Fin a) = Fin (- a)"
| "fneg PInf = NInf"
| "fneg NInf = PInf"
| "fneg NaN = NaN"

fun fadd :: "float64 \<Rightarrow> float64 \<Rightarrow> float64" where
  "fadd (Fin a) (Fin b) = Fin (a + b)"
| "fadd (Fin a) PInf = PInf"
| "fadd (Fin a) NInf = NInf"
| "fadd PInf (Fin b) = PInf"
| "fadd PInf PInf = PInf"
| "fadd PInf NInf = NaN"
| "fadd NInf (Fin b) = NInf"
| "fadd NInf NInf = NInf"
| "fadd NInf PInf = NaN"
| "fadd NaN y = NaN"
| "fadd x NaN = NaN"

definition fsub :: "float64 \<Rightarrow> float64 \<Rightarrow> float64" where
  "fsub x y = fadd x (fneg y)"

fun fmul :: "float64 \<Rightarrow> float64 \<Rightarrow> float64" where
  "fmul (Fin a) (Fin b) = Fin (a * b)"
| "fmul (Fin a) PInf = (if a = 0 then NaN else if 0 < a then PInf else NInf)"
| "fmul (Fin a) NInf = (if a = 0 then NaN else if 0 < a then NInf else PInf)"
| "fmul PInf (Fin b) = (if b = 0 then NaN else if 0 < b then PInf else NInf)"
| "fmul NInf (Fin b) = (if b = 0 then NaN else if 0 < b then NInf else PInf)"
| "fmul PInf PInf = PInf"
| "fmul PInf NInf = NInf"
| "fmul NInf PInf = NInf"
| "fmul NInf NInf = PInf"
| "fmul NaN y = NaN"
| "fmul x NaN = NaN"

fun fdiv :: "float64 \<Rightarrow> float64 \<Rightarrow> float64" where
  "fdiv (Fin a) (Fin b) =
     (if b \<noteq> 0 then Fin (a / b)
      else if a = 0 then NaN
      else if 0 < a then PInf else NInf)"
| "fdiv (Fin a) PInf = Fin 0"
| "fdiv (Fin a) NInf = Fin 0"
| "fdiv PInf (Fin b) = (if 0 \<le> b then PInf else NInf)"
| "fdiv NInf (Fin b) = (if 0 \<le> b then NInf else PInf)"
| "fdiv PInf PInf = NaN"
| "fdiv PInf NInf = NaN"
| "fdiv NInf PInf = NaN"
| "fdiv NInf NInf = NaN"
| "fdiv NaN y = NaN"
| "fdiv x NaN = NaN"

fun fsqrt :: "float64 \<Rightarrow> float64" where
  "fsqrt (Fin a) = (if 0 \<le> a then Fin (sqrt a) else NaN)"
| "fsqrt PInf = PInf"
| "fsqrt NInf = NaN"
| "fsqrt NaN = NaN"

text \<open>x > y\<close>

fun fgt :: "float64 \<Rightarrow> float64 \<Rightarrow> bool" where
  "fgt (Fin a) (Fin b) = (b < a)"
| "fgt (Fin a) NInf = True"
| "fgt PInf (Fin b) = True"
| "fgt PInf NInf = True"
| "fgt x y = False"

text \<open>np.diff, np.mean and np.std (the population standard deviation) of an array.\<close>

fun np_diff :: "float64 list \<Rightarrow> float64 list" where
  "np_diff (x # y # ys) = fsub y x # np_diff (y # ys)"
| "np_diff ys = []"

definition np_mean :: "float64 list \<Rightarrow> float64" where
  "np_mean xs = fdiv (foldl fadd (Fin 0) xs) (Fin (real (length xs)))"

definition np_std :: "float64 list \<Rightarrow> float64" where
  "np_std xs =
     (let m = np_mean xs
      in fsqrt (np_mean (map (\<lambda>x. fmul (fsub x m) (fsub x m)) xs)))"

text \<open>\_is\_winning\_trade\<close>

definition is_winning_trade :: "Trade \<Rightarrow> bool" where
  "is_winning_trade t \<longleftrightarrow> trade_side t = ''sell''"

record metrics =
  metric_total_return :: float64
  metric_daily_return :: float64
  metric_sharpe_ratio :: float64
  metric_max_drawdown :: float64
  metric_win_rate :: float64
  metric_volatility :: float64
  metric_total_trades :: nat
  metric_is_running :: bool

text \<open>The function returns the empty dict (None) when there is no history.  The total
  return is a division of Python floats, which raises on a zero initial capital; the
  daily returns are a division of numpy arrays, which does not raise.  No value is
  passed through a coercion before it is returned.\<close>

definition get_performance_metrics :: "RealtimeSimulator \<Rightarrow> py_error + metrics option" where
  "get_performance_metrics s =
     (if rt_portfolio_history s = [] then Inr None
      else if initial_capital s = 0 then Inl ZeroDivisionError
      else
        let initial_value = initial_capital s;
            final_value = total_value (portfolio s);
            total_return = Fin ((final_value - initial_value) / initial_value);
            portfolio_values = map (\<lambda>p. Fin (entry_total_value p)) (rt_portfolio_history s);
            daily_returns = map2 fdiv (np_diff portfolio_values) (butlast portfolio_values);
            avg_daily_return = (if length portfolio_values > 1 then np_mean daily_returns else Fin 0);
            volatility = (if length portfolio_values > 1 then np_std daily_returns else Fin 0);
            sharpe_ratio = (if length portfolio_values > 1 \<and> fgt volatility (Fin 0)
                            then fdiv avg_daily_return volatility else Fin 0);
            winning_trades = filter is_winning_trade (trades s);
            win_rate = (if trades s \<noteq> []
                        then Fin (real (length winning_trades) / real (length (trades s)))
                        else Fin 0)
        in Inr (Some \<lparr>metric_total_return = total_return,
                      metric_daily_return = avg_daily_return,
                      metric_sharpe_ratio = sharpe_ratio,
                      metric_max_drawdown = Fin (max_drawdown s),
                      metric_win_rate = win_rate,
                      metric_volatility = volatility,
                      metric_total_trades = length (trades s),
                      metric_is_running = is_running s\<rparr>))"

text \<open>The stream of price updates: stream\_realtime\_data calls the callback once per
  update, and an exception of the callback ends the stream.\<close>

fun feed ::
  "strategy \<Rightarrow> (int \<times> (string \<times> real) list) list \<Rightarrow> RealtimeSimulator \<Rightarrow> RealtimeSimulator outcome" where
  "feed algorithm [] s = Ok s"
| "feed algorithm ((current_time, prices) # updates) s =
     (case process_realtime_update algorithm current_time prices s of
        Ok s' \<Rightarrow> feed algorithm updates s'
      | Raised e s' \<Rightarrow> Raised e s')"

text \<open>A strategy that puts the whole capital into BTC at the first update, and a feed
  whose second and third price fetch fail: get\_current\_price then reports the price
  0.0.\<close>

definition all_in_at_start :: strategy where
  "all_in_at_start ts historical_data p =
     Inr (if ts = 0 then [(''BTC'', buy_signal 100)] else [])"

definition rt_after_outage :: RealtimeSimulator where
  "rt_after_outage =
     state_of (feed all_in_at_start
       [(0, [(''BTC'', 100)]), (1, [(''BTC'', 0)]), (2, [(''BTC'', 0)])] rt_btc)"

section \<open>Invariants used in the proofs\<close>

text \<open>The invariant that ties the simulator's two tracking fields to the values marked
  so far.\<close>

definition tracks :: "real \<Rightarrow> real list \<Rightarrow> 'a simulator_scheme \<Rightarrow> bool" where
  "tracks ic vs s \<longleftrightarrow>
     0 < ic \<and> peak_value s = Max (set (ic # vs)) \<and>
     max_drawdown s = (if vs = [] then 0 else max_drawdown_spec ic vs)"

text \<open>The benchmark values recorded so far all equal the initial capital.\<close>

definition flat_benchmark :: "real \<Rightarrow> HistoricalSimulator \<Rightarrow> bool" where
  "flat_benchmark ic s \<longleftrightarrow>
     initial_capital s = ic \<and> (\<forall>v \<in> set (benchmark_values s). v = ic)"

text \<open>The executions that the loop over the signals performs at one tick, as events.\<close>

definition signal_events :: "(string \<rightharpoonup> real) \<Rightarrow> int \<Rightarrow> (string \<times> signal) list \<Rightarrow> event list" where
  "signal_events cp ts sigs =
     concat (map (\<lambda>(symb, sg). case cp symb of None \<Rightarrow> [] | Some pr \<Rightarrow> [Exec symb sg pr ts]) sigs)"

section \<open>Properties of the execution unit\<close>

text \<open>The exact instance, written out.\<close>

lemma execute_trade_unfold:
  "execute_trade symb sg pr ts s =
     (if action sg = ''buy'' \<and> 0 < quantity sg then
        (let available_cash = cash (portfolio s) in
         if pr = 0 then Raised ZeroDivisionError s
         else
           let max_quantity = available_cash / pr;
               qty = min (quantity sg) max_quantity;
               cost = qty * pr
           in if cost \<le> available_cash then
                Ok (s\<lparr>portfolio := (portfolio s)
                        \<lparr>cash := available_cash - cost,
                         positions := AList.update symb (held (positions (portfolio s)) symb + qty)
                                        (positions (portfolio s))\<rparr>,
                      trades := trades s @
                        [\<lparr>trade_timestamp = ts, trade_symbol = symb, trade_side = ''buy'',
                          trade_quantity = qty, trade_price = pr, trade_value = cost,
                          trade_algorithm = algorithm_name s, trade_commission = 0\<rparr>]\<rparr>)
              else Ok s)
      else if action sg = ''sell'' \<and> 0 < quantity sg then
        (let available_quantity = held (positions (portfolio s)) symb;
             qty = min (quantity sg) available_quantity
         in if 0 < qty then
              (let proceeds = qty * pr in
               Ok (s\<lparr>portfolio := (portfolio s)
                       \<lparr>cash := cash (portfolio s) + proceeds,
                        positions := AList.update symb (held (positions (portfolio s)) symb - qty)
                                       (positions (portfolio s))\<rparr>,
                     trades := trades s @
                       [\<lparr>trade_timestamp = ts, trade_symbol = symb, trade_side = ''sell'',
                         trade_quantity = qty, trade_price = pr, trade_value = proceeds,
                         trade_algorithm = algorithm_name s, trade_commission = 0\<rparr>]\<rparr>))
            else Ok s)
      else Ok s)"
  by (simp add: execute_trade_def execute_trade_float_def Let_def)


lemma held_update:
  "held (AList.update k v ps) k' = (if k' = k then v else held ps k')"
  by (simp add: held_def update_conv')

lemma execute_trade_ok:
  "pr \<noteq> 0 \<Longrightarrow> is_ok (execute_trade symb sg pr ts s)"
  by (simp add: execute_trade_unfold Let_def)

lemma execute_trade_cash:
  assumes "0 \<le> cash (portfolio s)" and "0 < pr"
  shows "0 \<le> cash (portfolio (state_of (execute_trade symb sg pr ts s)))"
  using assms by (simp add: execute_trade_unfold Let_def)

lemma execute_trade_held:
  assumes "0 \<le> cash (portfolio s)" and "0 < pr"
    and "\<forall>k. 0 \<le> held (positions (portfolio s)) k"
  shows "0 \<le> held (positions (portfolio (state_of (execute_trade symb sg pr ts s)))) k"
  using assms by (simp add: execute_trade_unfold Let_def held_update)


lemma outcome_ok_state: "is_ok r \<Longrightarrow> r = Ok (state_of r)"
  by (cases r) simp_all

lemma execute_trades_Cons_ok:
  "is_ok (execute_trade symb sg pr ts s) \<Longrightarrow>
   execute_trades ((symb, sg, pr, ts) # xs) s =
   execute_trades xs (state_of (execute_trade symb sg pr ts s))"
  by (cases "execute_trade symb sg pr ts s") simp_all

lemma execute_trades_held:
  assumes "0 \<le> cash (portfolio s)" and "\<forall>k. 0 \<le> held (positions (portfolio s)) k"
    and "\<forall>(symb, sg, pr, ts) \<in> set xs. 0 < pr"
  shows "\<forall>k. 0 \<le> held (positions (portfolio (state_of (execute_trades xs s)))) k"
  using assms
proof (induction xs arbitrary: s)
  case Nil
  then show ?case by simp
next
  case (Cons x xs)
  obtain symb sg pr ts where x: "x = (symb, sg, pr, ts)" by (cases x) auto
  from Cons.prems x have pr: "0 < pr" by simp
  then have "is_ok (execute_trade symb sg pr ts s)" by (simp add: execute_trade_ok)
  then have ok: "is_ok (execute_trade symb sg pr ts s)" .
  have c: "0 \<le> cash (portfolio (state_of (execute_trade symb sg pr ts s)))"
    using Cons.prems(1) pr by (rule execute_trade_cash)
  have h: "\<forall>k. 0 \<le> held (positions (portfolio (state_of (execute_trade symb sg pr ts s)))) k"
    using execute_trade_held [OF Cons.prems(1) pr Cons.prems(2)] by blast
  have rest: "\<forall>(symb, sg, pr, ts) \<in> set xs. 0 < pr" using Cons.prems(3) by simp
  have step: "execute_trades (x # xs) s = execute_trades xs (state_of (execute_trade symb sg pr ts s))"
    unfolding x using ok by (rule execute_trades_Cons_ok)
  show ?case unfolding step using Cons.IH [OF c h rest] .
qed

lemma prices_positive_take:
  "\<forall>(symb, sg, pr, ts) \<in> set xs. (0::real) < pr \<Longrightarrow> \<forall>(symb, sg, pr, ts) \<in> set (take n xs). 0 < pr"
  by (meson in_set_takeD)

lemma sim_after_buy_eq:
  "sim_after_buy = sim_10000
     \<lparr>portfolio := \<lparr>total_value = 10000, cash = 5000, positions = [(''BTC'', 50)],
                     unrealized_pnl = 0, realized_pnl = 0\<rparr>,
      trades := [\<lparr>trade_timestamp = 0, trade_symbol = ''BTC'', trade_side = ''buy'',
                  trade_quantity = 50, trade_price = 100, trade_value = 5000,
                  trade_algorithm = ''SimpleMomentumStrategy'', trade_commission = 0\<rparr>]\<rparr>"
  by (simp add: sim_after_buy_def sim_10000_def new_simulator_def new_Portfolio_def
      buy_signal_def execute_trade_unfold Let_def held_def)

lemma rounding_nonneg: "rounding rnd \<Longrightarrow> 0 \<le> x \<Longrightarrow> 0 \<le> rnd x"
  unfolding rounding_def by (metis monoD)

lemma rounding_ge: "rounding rnd \<Longrightarrow> rnd c = c \<Longrightarrow> c \<le> x \<Longrightarrow> c \<le> rnd x"
  unfolding rounding_def by (metis monoD)

lemma rounding_round_cents: "rounding round_cents"
proof -
  have "mono round_cents"
  proof (rule monoI)
    fix x y :: real
    assume "x \<le> y"
    then have "x * 100 \<le> y * 100" by simp
    then have "round (x * 100) \<le> round (y * 100)" by (rule round_mono)
    then have "real_of_int (round (x * 100)) \<le> real_of_int (round (y * 100))" by simp
    then show "round_cents x \<le> round_cents y"
      unfolding round_cents_def by (simp add: divide_right_mono)
  qed
  moreover have "round_cents 0 = 0" by (simp add: round_cents_def)
  ultimately show ?thesis by (simp add: rounding_def)
qed

lemma execute_trade_float_ok:
  "pr \<noteq> 0 \<Longrightarrow> is_ok (execute_trade_float rnd numpy_price symb sg pr ts s)"
  by (simp add: execute_trade_float_def Let_def)

lemma execute_trade_float_buy:
  assumes "0 < pr" and "action sg = ''buy''" and "0 < quantity sg"
    and "rnd (min (quantity sg) (rnd (cash (portfolio s) / pr)) * pr) \<le> cash (portfolio s)"
  shows "cash (portfolio (state_of (execute_trade_float rnd numpy_price symb sg pr ts s))) =
           rnd (cash (portfolio s) - rnd (min (quantity sg) (rnd (cash (portfolio s) / pr)) * pr))"
    and "map trade_quantity (trades (state_of (execute_trade_float rnd numpy_price symb sg pr ts s))) =
           map trade_quantity (trades s) @ [min (quantity sg) (rnd (cash (portfolio s) / pr))]"
  using assms by (simp_all add: execute_trade_float_def Let_def)

lemma execute_trade_float_buy_dropped:
  assumes "0 < pr" and "action sg = ''buy''" and "0 < quantity sg"
    and "\<not> rnd (min (quantity sg) (rnd (cash (portfolio s) / pr)) * pr) \<le> cash (portfolio s)"
  shows "execute_trade_float rnd numpy_price symb sg pr ts s = Ok s"
  using assms by (simp add: execute_trade_float_def Let_def)

lemma execute_trade_float_sell:
  assumes "action sg = ''sell''" and "0 < quantity sg"
    and "0 < min (quantity sg) (held (positions (portfolio s)) symb)"
  shows "cash (portfolio (state_of (execute_trade_float rnd numpy_price symb sg pr ts s))) =
           rnd (cash (portfolio s)
                 + rnd (min (quantity sg) (held (positions (portfolio s)) symb) * pr))"
  using assms by (simp add: execute_trade_float_def Let_def)

lemma execute_trade_float_idle:
  assumes "\<not> (action sg = ''buy'' \<and> 0 < quantity sg)"
    and "\<not> (action sg = ''sell'' \<and> 0 < quantity sg
             \<and> 0 < min (quantity sg) (held (positions (portfolio s)) symb))"
  shows "execute_trade_float rnd numpy_price symb sg pr ts s = Ok s"
  using assms by (auto simp: execute_trade_float_def Let_def)

lemma execute_trade_float_cash:
  assumes "rounding rnd" and "0 \<le> cash (portfolio s)" and "0 < pr"
  shows "0 \<le> cash (portfolio (state_of (execute_trade_float rnd numpy_price symb sg pr ts s)))"
proof -
  let ?c = "cash (portfolio s)"
  let ?cost = "rnd (min (quantity sg) (rnd (?c / pr)) * pr)"
  let ?q = "min (quantity sg) (held (positions (portfolio s)) symb)"
  let ?r = "execute_trade_float rnd numpy_price symb sg pr ts s"
  show ?thesis
  proof (cases "action sg = ''buy'' \<and> 0 < quantity sg")
    case True
    then have b: "action sg = ''buy''" and p: "0 < quantity sg" by simp_all
    show ?thesis
    proof (cases "?cost \<le> ?c")
      case c: True
      then have "0 \<le> ?c - ?cost" by simp
      then have "0 \<le> rnd (?c - ?cost)" by (rule rounding_nonneg [OF assms(1)])
      moreover have "cash (portfolio (state_of ?r)) = rnd (?c - ?cost)"
        using assms(3) b p c by (rule execute_trade_float_buy(1))
      ultimately show ?thesis by simp
    next
      case c: False
      have "?r = Ok s" using assms(3) b p c by (rule execute_trade_float_buy_dropped)
      then show ?thesis using assms(2) by simp
    qed
  next
    case False
    show ?thesis
    proof (cases "action sg = ''sell'' \<and> 0 < quantity sg \<and> 0 < ?q")
      case q: True
      then have sl: "action sg = ''sell''" and p: "0 < quantity sg" and q0: "0 < ?q" by blast+
      have "0 \<le> ?q * pr" using q0 assms(3) by (intro mult_nonneg_nonneg) simp_all
      then have "0 \<le> rnd (?q * pr)" by (rule rounding_nonneg [OF assms(1)])
      then have "0 \<le> ?c + rnd (?q * pr)" using assms(2) by simp
      then have "0 \<le> rnd (?c + rnd (?q * pr))" by (rule rounding_nonneg [OF assms(1)])
      moreover have "cash (portfolio (state_of ?r)) = rnd (?c + rnd (?q * pr))"
        using sl p q0 by (rule execute_trade_float_sell)
      ultimately show ?thesis by simp
    next
      case q: False
      have "?r = Ok s" using False q by (rule execute_trade_float_idle)
      then show ?thesis using assms(2) by simp
    qed
  qed
qed

lemma execute_trades_float_Cons_ok:
  "is_ok (execute_trade_float rnd numpy_price symb sg pr ts s) \<Longrightarrow>
   execute_trades_float rnd numpy_price ((symb, sg, pr, ts) # xs) s =
   execute_trades_float rnd numpy_price xs
     (state_of (execute_trade_float rnd numpy_price symb sg pr ts s))"
  by (cases "execute_trade_float rnd numpy_price symb sg pr ts s") simp_all

lemma execute_trades_float_cash:
  assumes "rounding rnd" and "0 \<le> cash (portfolio s)"
    and "\<forall>(symb, sg, pr, ts) \<in> set xs. 0 < pr"
  shows "is_ok (execute_trades_float rnd numpy_price xs s) \<and>
         0 \<le> cash (portfolio (state_of (execute_trades_float rnd numpy_price xs s)))"
  using assms(2,3)
proof (induction xs arbitrary: s)
  case Nil
  then show ?case by simp
next
  case (Cons x xs)
  obtain symb sg pr ts where x: "x = (symb, sg, pr, ts)" by (cases x) auto
  from Cons.prems x have pr: "0 < pr" by simp
  then have ok: "is_ok (execute_trade_float rnd numpy_price symb sg pr ts s)"
    by (simp add: execute_trade_float_ok)
  have c: "0 \<le> cash (portfolio (state_of (execute_trade_float rnd numpy_price symb sg pr ts s)))"
    using assms(1) Cons.prems(1) pr by (rule execute_trade_float_cash)
  have rest: "\<forall>(symb, sg, pr, ts) \<in> set xs. 0 < pr" using Cons.prems(2) by simp
  have step: "execute_trades_float rnd numpy_price (x # xs) s =
      execute_trades_float rnd numpy_price xs
        (state_of (execute_trade_float rnd numpy_price symb sg pr ts s))"
    unfolding x using ok by (rule execute_trades_float_Cons_ok)
  show ?case unfolding step using Cons.IH [OF c rest] .
qed

text \<open>
  Claim C1.  Starting from a portfolio whose cash is not negative (the constructor puts
  the initial capital there), after every prefix of any sequence of buy, sell and hold
  signals executed at positive fill prices the execution returns normally and the cash is
  not negative; this holds in float arithmetic, for every rounding that is monotone and
  keeps 0, and for both kinds of price.  The quantity of a buy is capped at
  min(requested quantity, cash / price) before the cash is debited: when the cost of the
  capped quantity passes the test against the cash, that quantity is recorded and the cash
  becomes cash - cost; when rounding has taken the cost above the cash, the buy is not
  executed and the simulator stays as it was.  A sell never lowers the cash.
\<close>

theorem cash_never_negative:
  assumes "rounding rnd"
    and "0 \<le> cash (portfolio s)"
    and "\<forall>(symb, sg, pr, ts) \<in> set xs. 0 < pr"
  shows "(\<forall>n \<le> length xs.
            is_ok (execute_trades_float rnd numpy_price (take n xs) s) \<and>
            0 \<le> cash (portfolio (state_of (execute_trades_float rnd numpy_price (take n xs) s))))
       \<and> (\<forall>symb sg pr ts.
            0 < pr \<and> action sg = ''buy'' \<and> 0 < quantity sg \<and>
            rnd (min (quantity sg) (rnd (cash (portfolio s) / pr)) * pr) \<le> cash (portfolio s) \<longrightarrow>
            cash (portfolio (state_of (execute_trade_float rnd numpy_price symb sg pr ts s))) =
              rnd (cash (portfolio s)
                    - rnd (min (quantity sg) (rnd (cash (portfolio s) / pr)) * pr)) \<and>
            map trade_quantity (trades (state_of (execute_trade_float rnd numpy_price symb sg pr ts s))) =
              map trade_quantity (trades s) @ [min (quantity sg) (rnd (cash (portfolio s) / pr))])
       \<and> (\<forall>symb sg pr ts.
            0 < pr \<and> action sg = ''buy'' \<and> 0 < quantity sg \<and>
            cash (portfolio s) < rnd (min (quantity sg) (rnd (cash (portfolio s) / pr)) * pr) \<longrightarrow>
            execute_trade_float rnd numpy_price symb sg pr ts s = Ok s)
       \<and> (\<forall>symb sg pr ts.
            0 < pr \<and> action sg = ''sell'' \<and> rnd (cash (portfolio s)) = cash (portfolio s) \<longrightarrow>
            cash (portfolio s)
              \<le> cash (portfolio (state_of (execute_trade_float rnd numpy_price symb sg pr ts s))))"
proof (intro conjI allI impI)
  fix n
  show "is_ok (execute_trades_float rnd numpy_price (take n xs) s)"
    using execute_trades_float_cash [OF assms(1,2) prices_positive_take [OF assms(3)]] by blast
  show "0 \<le> cash (portfolio (state_of (execute_trades_float rnd numpy_price (take n xs) s)))"
    using execute_trades_float_cash [OF assms(1,2) prices_positive_take [OF assms(3)]] by blast
next
  fix symb :: string and sg :: signal and pr :: real and ts :: int
  assume a: "0 < pr \<and> action sg = ''buy'' \<and> 0 < quantity sg \<and>
      rnd (min (quantity sg) (rnd (cash (portfolio s) / pr)) * pr) \<le> cash (portfolio s)"
  then have h: "0 < pr" "action sg = ''buy''" "0 < quantity sg"
      "rnd (min (quantity sg) (rnd (cash (portfolio s) / pr)) * pr) \<le> cash (portfolio s)"
    by blast+
  from h show "cash (portfolio (state_of (execute_trade_float rnd numpy_price symb sg pr ts s))) =
      rnd (cash (portfolio s) - rnd (min (quantity sg) (rnd (cash (portfolio s) / pr)) * pr))"
    by (rule execute_trade_float_buy(1))
  from h show "map trade_quantity
        (trades (state_of (execute_trade_float rnd numpy_price symb sg pr ts s))) =
      map trade_quantity (trades s) @ [min (quantity sg) (rnd (cash (portfolio s) / pr))]"
    by (rule execute_trade_float_buy(2))
next
  fix symb :: string and sg :: signal and pr :: real and ts :: int
  assume a: "0 < pr \<and> action sg = ''buy'' \<and> 0 < quantity sg \<and>
      cash (portfolio s) < rnd (min (quantity sg) (rnd (cash (portfolio s) / pr)) * pr)"
  then have h: "0 < pr" "action sg = ''buy''" "0 < quantity sg"
      "\<not> rnd (min (quantity sg) (rnd (cash (portfolio s) / pr)) * pr) \<le> cash (portfolio s)"
    by (simp_all add: not_le)
  from h show "execute_trade_float rnd numpy_price symb sg pr ts s = Ok s"
    by (rule execute_trade_float_buy_dropped)
next
  fix symb :: string and sg :: signal and pr :: real and ts :: int
  let ?c = "cash (portfolio s)"
  let ?q = "min (quantity sg) (held (positions (portfolio s)) symb)"
  let ?r = "execute_trade_float rnd numpy_price symb sg pr ts s"
  assume a: "0 < pr \<and> action sg = ''sell'' \<and> rnd ?c = ?c"
  then have pr: "0 < pr" and sl: "action sg = ''sell''" and rc: "rnd ?c = ?c" by blast+
  show "?c \<le> cash (portfolio (state_of ?r))"
  proof (cases "0 < quantity sg \<and> 0 < ?q")
    case True
    then have p: "0 < quantity sg" and q0: "0 < ?q" by blast+
    have "0 \<le> ?q * pr" using q0 pr by (intro mult_nonneg_nonneg) simp_all
    then have "0 \<le> rnd (?q * pr)" by (rule rounding_nonneg [OF assms(1)])
    then have "?c \<le> ?c + rnd (?q * pr)" by simp
    then have "?c \<le> rnd (?c + rnd (?q * pr))" by (rule rounding_ge [OF assms(1) rc])
    moreover have "cash (portfolio (state_of ?r)) = rnd (?c + rnd (?q * pr))"
      using sl p q0 by (rule execute_trade_float_sell)
    ultimately show ?thesis by simp
  next
    case False
    have "?r = Ok s"
    proof (rule execute_trade_float_idle)
      show "\<not> (action sg = ''buy'' \<and> 0 < quantity sg)" using sl by simp
      show "\<not> (action sg = ''sell'' \<and> 0 < quantity sg \<and> 0 < ?q)" using False by blast
    qed
    then show ?thesis by simp
  qed
qed

theorem cash_never_negative_witness:
  "rounding round_cents
   \<and> 0 \<le> cash (portfolio sim_200)
   \<and> execute_trade_float round_cents False ''BTC'' (buy_signal 100) 3 0 sim_200 = Ok sim_200
   \<and> cash (portfolio (state_of
         (execute_trade_float round_cents False ''BTC'' (buy_signal 10) 4 3600 sim_200))) = 160
   \<and> is_ok (execute_trades_float round_cents False
         [(''BTC'', buy_signal 100, 3, 0), (''BTC'', buy_signal 10, 4, 3600),
          (''BTC'', sell_signal 5, 3, 7200)] sim_200)
   \<and> 0 \<le> cash (portfolio (state_of (execute_trades_float round_cents False
         [(''BTC'', buy_signal 100, 3, 0), (''BTC'', buy_signal 10, 4, 3600),
          (''BTC'', sell_signal 5, 3, 7200)] sim_200)))"
proof -
  have c: "cash (portfolio sim_200) = 200"
    by (simp add: sim_200_def new_simulator_def new_Portfolio_def)
  have h1: "0 \<le> cash (portfolio sim_200)" by (simp add: c)
  have h2: "\<forall>(symb, sg, pr, ts) \<in>
      set [(''BTC'', buy_signal 100, 3::real, 0::int), (''BTC'', buy_signal 10, 4, 3600),
           (''BTC'', sell_signal 5, 3, 7200)]. 0 < pr"
    by simp
  have r1: "round_cents (min 100 (round_cents (200 / 3)) * 3) = 20001 / 100"
    by (simp add: round_cents_def round_def)
  have r2: "round_cents (min 10 (round_cents 50) * 4) = 40"
    by (simp add: round_cents_def round_def)
  have r3: "round_cents 160 = 160"
    by (simp add: round_cents_def round_def)
  note main = cash_never_negative [OF rounding_round_cents h1 h2, of False]
  from main have a: "is_ok (execute_trades_float round_cents False (take 3
        [(''BTC'', buy_signal 100, 3, 0), (''BTC'', buy_signal 10, 4, 3600),
         (''BTC'', sell_signal 5, 3, 7200)]) sim_200)
     \<and> 0 \<le> cash (portfolio (state_of (execute_trades_float round_cents False (take 3
        [(''BTC'', buy_signal 100, 3, 0), (''BTC'', buy_signal 10, 4, 3600),
         (''BTC'', sell_signal 5, 3, 7200)]) sim_200)))"
    by (elim conjE allE [where x = "3::nat"]) simp
  from main have "0 < (3::real) \<and> action (buy_signal 100) = ''buy'' \<and> 0 < quantity (buy_signal 100) \<and>
      cash (portfolio sim_200)
        < round_cents (min (quantity (buy_signal 100)) (round_cents (cash (portfolio sim_200) / 3)) * 3)
      \<longrightarrow> execute_trade_float round_cents False ''BTC'' (buy_signal 100) 3 0 sim_200 = Ok sim_200"
    by blast
  then have b: "execute_trade_float round_cents False ''BTC'' (buy_signal 100) 3 0 sim_200 = Ok sim_200"
    by (simp add: c buy_signal_def r1)
  from main have "0 < (4::real) \<and> action (buy_signal 10) = ''buy'' \<and> 0 < quantity (buy_signal 10) \<and>
      round_cents (min (quantity (buy_signal 10)) (round_cents (cash (portfolio sim_200) / 4)) * 4)
        \<le> cash (portfolio sim_200)
      \<longrightarrow> cash (portfolio (state_of
            (execute_trade_float round_cents False ''BTC'' (buy_signal 10) 4 3600 sim_200))) =
          round_cents (cash (portfolio sim_200)
            - round_cents (min (quantity (buy_signal 10)) (round_cents (cash (portfolio sim_200) / 4)) * 4))"
    by blast
  then have d: "cash (portfolio (state_of
        (execute_trade_float round_cents False ''BTC'' (buy_signal 10) 4 3600 sim_200))) = 160"
    by (simp add: c buy_signal_def r2 r3)
  show ?thesis using rounding_round_cents h1 a b d by simp
qed

text \<open>
  Claim C2.  Starting from a portfolio with non-negative cash and no negative position,
  after every prefix of any sequence of signals executed at positive fill prices the held
  quantity of every symbol is non-negative.  A sell with a positive requested quantity
  lowers the held quantity by exactly min(requested quantity, held quantity), and a sell
  for a symbol with zero held quantity leaves the whole simulator (cash, positions and
  trade ledger) as it was.
\<close>

theorem position_never_negative:
  assumes "0 \<le> cash (portfolio s)"
    and "\<forall>k. 0 \<le> held (positions (portfolio s)) k"
    and "\<forall>(symb, sg, pr, ts) \<in> set xs. 0 < pr"
  shows "(\<forall>n \<le> length xs. \<forall>k.
            0 \<le> held (positions (portfolio (state_of (execute_trades (take n xs) s)))) k)
       \<and> (\<forall>symb sg pr ts. action sg = ''sell'' \<and> 0 < quantity sg \<longrightarrow>
            held (positions (portfolio (state_of (execute_trade symb sg pr ts s)))) symb =
            held (positions (portfolio s)) symb
              - min (quantity sg) (held (positions (portfolio s)) symb))
       \<and> (\<forall>symb sg pr ts. action sg = ''sell'' \<and> held (positions (portfolio s)) symb = 0 \<longrightarrow>
            execute_trade symb sg pr ts s = Ok s)"
proof (intro conjI allI impI)
  fix n k
  show "0 \<le> held (positions (portfolio (state_of (execute_trades (take n xs) s)))) k"
    using execute_trades_held [OF assms(1) assms(2) prices_positive_take [OF assms(3)]] by blast
next
  fix symb :: string and sg :: signal and pr :: real and ts :: int
  assume a: "action sg = ''sell'' \<and> 0 < quantity sg"
  have "0 \<le> held (positions (portfolio s)) symb" using assms(2) by blast
  with a show "held (positions (portfolio (state_of (execute_trade symb sg pr ts s)))) symb =
      held (positions (portfolio s)) symb - min (quantity sg) (held (positions (portfolio s)) symb)"
    by (simp add: execute_trade_unfold Let_def held_update min_def)
next
  fix symb :: string and sg :: signal and pr :: real and ts :: int
  assume "action sg = ''sell'' \<and> held (positions (portfolio s)) symb = 0"
  then show "execute_trade symb sg pr ts s = Ok s"
    by (simp add: execute_trade_unfold Let_def)
qed

theorem position_never_negative_witness:
  "0 \<le> cash (portfolio sim_after_buy)
   \<and> 0 \<le> held (positions (portfolio (state_of (execute_trades
        [(''BTC'', sell_signal 80, 110, 3600), (''ETH'', sell_signal 1, 20, 3600)] sim_after_buy)))) ''BTC''
   \<and> held (positions (portfolio (state_of
        (execute_trade ''BTC'' (sell_signal 80) 110 3600 sim_after_buy)))) ''BTC'' = 0
   \<and> execute_trade ''ETH'' (sell_signal 1) 20 3600 sim_after_buy = Ok sim_after_buy"
proof -
  have h1: "0 \<le> cash (portfolio sim_after_buy)"
    by (simp add: sim_after_buy_eq)
  have hb: "held (positions (portfolio sim_after_buy)) k = (if k = ''BTC'' then 50 else 0)" for k
    by (simp add: sim_after_buy_eq held_def)
  have h2: "\<forall>k. 0 \<le> held (positions (portfolio sim_after_buy)) k"
    by (simp add: hb)
  have h3: "\<forall>(symb, sg, pr, ts) \<in>
      set [(''BTC'', sell_signal 80, 110::real, 3600::int), (''ETH'', sell_signal 1, 20, 3600)]. 0 < pr"
    by simp
  note main = position_never_negative [OF h1 h2 h3]
  from main have a: "0 \<le> held (positions (portfolio (state_of (execute_trades (take 2
        [(''BTC'', sell_signal 80, 110, 3600), (''ETH'', sell_signal 1, 20, 3600)]) sim_after_buy)))) ''BTC''"
    by (elim conjE allE [where x = "2::nat"]) simp
  from main have b: "held (positions (portfolio (state_of
        (execute_trade ''BTC'' (sell_signal 80) 110 3600 sim_after_buy)))) ''BTC'' =
      held (positions (portfolio sim_after_buy)) ''BTC''
        - min (quantity (sell_signal 80)) (held (positions (portfolio sim_after_buy)) ''BTC'')"
    by (elim conjE) (simp add: sell_signal_def)
  from main have c: "execute_trade ''ETH'' (sell_signal 1) 20 3600 sim_after_buy = Ok sim_after_buy"
    by (elim conjE) (simp add: sell_signal_def hb)
  show ?thesis using h1 a b c by (simp add: hb sell_signal_def)
qed

text \<open>
  Claim C10, the part the code keeps: a hold signal, and any signal whose requested
  quantity is not positive, leaves the simulator as it was.
\<close>

lemma execute_trade_no_effect:
  "(action sg \<noteq> ''buy'' \<and> action sg \<noteq> ''sell'') \<or> quantity sg \<le> 0 \<Longrightarrow>
   execute_trade symb sg pr ts s = Ok s"
  by (auto simp: execute_trade_unfold)

lemma position_values_sum:
  "position_values cp ps tv =
     tv + (\<Sum>(symb, q) \<leftarrow> ps. case cp symb of Some p \<Rightarrow> q * p | None \<Rightarrow> 0)"
  by (induction cp ps tv rule: position_values.induct) (simp_all split: option.splits)

lemma update_portfolio_value_total:
  "total_value (portfolio (state_of (update_portfolio_value cp s))) =
     position_values cp (positions (portfolio s)) (cash (portfolio s))"
  by (simp add: update_portfolio_value_def Let_def)

lemma update_portfolio_value_portfolio:
  "cash (portfolio (state_of (update_portfolio_value cp s))) = cash (portfolio s)"
  "positions (portfolio (state_of (update_portfolio_value cp s))) = positions (portfolio s)"
  "trades (state_of (update_portfolio_value cp s)) = trades s"
  by (simp_all add: update_portfolio_value_def Let_def)

text \<open>
  Claim C3 as stated fails: after the purchase of 50 BTC at 100 out of 10000, a valuation
  with BTC priced at 100 gives the total value 10000, of which the position contributes
  5000; the next valuation, whose price mapping has no BTC, gives 5000, the cash alone.
  The position's last contribution is dropped, not carried forward.
\<close>

theorem unpriced_position_dropped:
  "total_value (portfolio sim_marked_priced) = 10000
   \<and> cash (portfolio sim_marked_unpriced) = 5000
   \<and> positions (portfolio sim_marked_unpriced) = [(''BTC'', 50)]
   \<and> total_value (portfolio sim_marked_unpriced) = 5000
   \<and> total_value (portfolio sim_marked_unpriced) \<noteq> cash (portfolio sim_marked_unpriced) + 50 * 100"
proof -
  have p: "portfolio sim_marked_priced =
      \<lparr>total_value = 10000, cash = 5000, positions = [(''BTC'', 50)],
       unrealized_pnl = 0, realized_pnl = 0\<rparr>"
    by (simp add: sim_marked_priced_def sim_after_buy_eq update_portfolio_value_def Let_def
        sim_10000_def new_simulator_def)
  have u: "portfolio sim_marked_unpriced =
      \<lparr>total_value = 5000, cash = 5000, positions = [(''BTC'', 50)],
       unrealized_pnl = 0, realized_pnl = 0\<rparr>"
    by (simp add: sim_marked_unpriced_def update_portfolio_value_def Let_def p)
  show ?thesis by (simp add: p u)
qed

text \<open>
  Claim C3 as amended.  After the valuation step with a price mapping, total\_value equals
  the cash plus the sum, over the held positions whose symbol is in the mapping, of
  quantity times current price; a position whose symbol is not in the mapping contributes
  nothing.  Cash, positions and the ledger are not touched.  This holds also when the
  drawdown update that follows raises, since total\_value is assigned before it.
\<close>

theorem valuation_total_value:
  "total_value (portfolio (state_of (update_portfolio_value cp s))) =
     cash (portfolio s)
       + (\<Sum>(symb, q) \<leftarrow> positions (portfolio s).
            case cp symb of Some p \<Rightarrow> q * p | None \<Rightarrow> 0)
   \<and> cash (portfolio (state_of (update_portfolio_value cp s))) = cash (portfolio s)
   \<and> positions (portfolio (state_of (update_portfolio_value cp s))) =
       positions (portfolio s)"
  by (simp add: update_portfolio_value_total update_portfolio_value_portfolio position_values_sum)

section \<open>Properties of the drawdown statistic\<close>

lemma peak_so_far_append:
  "i < length vs \<Longrightarrow> peak_so_far ic (vs @ [v]) i = peak_so_far ic vs i"
  by (simp add: peak_so_far_def)

lemma peak_so_far_last:
  "peak_so_far ic (vs @ [v]) (length vs) = max (Max (set (ic # vs))) v"
proof -
  have "Max (insert v (set (ic # vs))) = max v (Max (set (ic # vs)))"
    by (rule Max_insert) simp_all
  then show ?thesis by (simp add: peak_so_far_def max.commute insert_commute)
qed

lemma drawdown_at_append:
  "i < length vs \<Longrightarrow> drawdown_at ic (vs @ [v]) i = drawdown_at ic vs i"
  by (simp add: drawdown_at_def peak_so_far_append nth_append)

lemma max_drawdown_spec_snoc:
  "max_drawdown_spec ic (vs @ [v]) =
     (if vs = [] then drawdown_at ic [v] 0
      else max (max_drawdown_spec ic vs) (drawdown_at ic (vs @ [v]) (length vs)))"
proof (cases "vs = []")
  case True
  then show ?thesis by (simp add: max_drawdown_spec_def)
next
  case False
  have m: "map (drawdown_at ic (vs @ [v])) [0..<length vs] = map (drawdown_at ic vs) [0..<length vs]"
    by (rule map_cong) (simp_all add: drawdown_at_append)
  have ne: "set (map (drawdown_at ic vs) [0..<length vs]) \<noteq> {}"
    using False by simp
  have "max_drawdown_spec ic (vs @ [v]) =
      Max (insert (drawdown_at ic (vs @ [v]) (length vs)) (set (map (drawdown_at ic vs) [0..<length vs])))"
    by (simp add: max_drawdown_spec_def m)
  also have "\<dots> = max (drawdown_at ic (vs @ [v]) (length vs)) (Max (set (map (drawdown_at ic vs) [0..<length vs])))"
    using ne by (intro Max_insert) simp_all
  finally show ?thesis using False by (simp add: max_drawdown_spec_def max.commute)
qed

lemma Max_ge_initial: "ic \<le> Max (set (ic # vs))"
  by simp

lemma tracks_mark:
  assumes "tracks ic vs s"
  shows "is_ok (update_portfolio_value cp s) \<and>
         tracks ic (vs @ [total_value (portfolio (state_of (update_portfolio_value cp s)))])
           (state_of (update_portfolio_value cp s))"
proof -
  define tv where "tv = position_values cp (positions (portfolio s)) (cash (portfolio s))"
  define pk where "pk = max (peak_value s) tv"
  define dd where "dd = (pk - tv) / pk"
  from assms have ic: "0 < ic" and p: "peak_value s = Max (set (ic # vs))"
    and m: "max_drawdown s = (if vs = [] then 0 else max_drawdown_spec ic vs)"
    by (simp_all add: tracks_def)
  have "ic \<le> peak_value s" unfolding p by (rule Max_ge_initial)
  with ic have pk_pos: "0 < pk" by (simp add: pk_def max_def)
  have dd_nonneg: "0 \<le> dd" using pk_pos by (simp add: dd_def pk_def)
  have res: "update_portfolio_value cp s =
      Ok (s\<lparr>portfolio := (portfolio s)\<lparr>total_value := tv\<rparr>, peak_value := pk,
            max_drawdown := max (max_drawdown s) dd\<rparr>)"
    using pk_pos
    by (auto simp: update_portfolio_value_def Let_def tv_def [symmetric] pk_def dd_def max_def
        split: if_splits)
  have pk_eq: "peak_so_far ic (vs @ [tv]) (length vs) = pk"
    by (simp only: peak_so_far_last pk_def p)
  have dd_eq: "drawdown_at ic (vs @ [tv]) (length vs) = dd"
    by (simp add: drawdown_at_def pk_eq dd_def)
  have dd0: "drawdown_at ic [tv] 0 = dd" if "vs = []"
    using dd_eq that by simp
  have mdd: "max (max_drawdown s) dd = max_drawdown_spec ic (vs @ [tv])"
  proof (cases "vs = []")
    case True
    then show ?thesis using m dd_nonneg dd0 by (simp add: max_drawdown_spec_def)
  next
    case False
    then show ?thesis using m dd_eq by (simp add: max_drawdown_spec_snoc)
  qed
  have pk': "pk = Max (set (ic # vs @ [tv]))"
    using pk_eq by (simp add: peak_so_far_def)
  show ?thesis
    using ic mdd pk' by (simp add: res tracks_def)
qed

lemma tracks_exec:
  assumes "tracks ic vs s"
  shows "tracks ic vs (state_of (execute_trade symb sg pr ts s))"
  using assms by (simp add: tracks_def execute_trade_unfold Let_def)

lemma tracks_run:
  assumes "tracks ic vs s"
  shows "tracks ic (vs @ marked_values evs s) (state_of (run_events evs s))"
  using assms
proof (induction evs arbitrary: s vs)
  case Nil
  then show ?case by simp
next
  case (Cons e evs)
  show ?case
  proof (cases e)
    case (Mark cp)
    from tracks_mark [OF Cons.prems, of cp]
    obtain s' where ok: "update_portfolio_value cp s = Ok s'"
      and t: "tracks ic (vs @ [total_value (portfolio s')]) s'"
      by (cases "update_portfolio_value cp s") simp_all
    from Cons.IH [OF t] show ?thesis by (simp add: Mark ok)
  next
    case (Exec symb sg pr ts)
    show ?thesis
    proof (cases "execute_trade symb sg pr ts s")
      case (Ok s')
      with tracks_exec [OF Cons.prems, of symb sg pr ts] have "tracks ic vs s'" by simp
      from Cons.IH [OF this] show ?thesis by (simp add: Exec Ok)
    next
      case (Raised err s')
      with tracks_exec [OF Cons.prems, of symb sg pr ts] show ?thesis by (simp add: Exec)
    qed
  qed
qed

lemma step_max_drawdown_mono:
  "max_drawdown s \<le> max_drawdown (state_of (step e s))"
  by (cases e) (simp_all add: update_portfolio_value_def execute_trade_unfold Let_def)

lemma run_events_max_drawdown_mono:
  "max_drawdown s \<le> max_drawdown (state_of (run_events evs s))"
proof (induction evs arbitrary: s)
  case Nil
  then show ?case by simp
next
  case (Cons e evs)
  show ?case
  proof (cases "step e s")
    case (Ok s')
    have "max_drawdown s \<le> max_drawdown s'"
      using step_max_drawdown_mono [of s e] Ok by simp
    also have "\<dots> \<le> max_drawdown (state_of (run_events evs s'))" by (rule Cons.IH)
    finally show ?thesis by (simp add: Ok)
  next
    case (Raised err s')
    then show ?thesis using step_max_drawdown_mono [of s e] by simp
  qed
qed

lemma run_events_append:
  "state_of (run_events (xs @ ys) s) =
     (if is_ok (run_events xs s) then state_of (run_events ys (state_of (run_events xs s)))
      else state_of (run_events xs s))"
proof (induction xs arbitrary: s)
  case Nil
  then show ?case by simp
next
  case (Cons e xs)
  then show ?case by (cases "step e s") simp_all
qed

lemma run_events_prefix_mono:
  assumes "n \<le> m"
  shows "max_drawdown (state_of (run_events (take n evs) s))
       \<le> max_drawdown (state_of (run_events (take m evs) s))"
proof -
  have "take m evs = take n evs @ take (m - n) (drop n evs)"
    using assms by (metis le_add_diff_inverse take_add)
  then show ?thesis
    by (simp add: run_events_append run_events_max_drawdown_mono)
qed

lemma scenario_marked:
  "marked_values scenario_events sim_10000 = [10000, 10000, 10500, 9500, 9500]"
  by (simp add: scenario_events_def sim_10000_def new_simulator_def new_Portfolio_def
      buy_signal_def update_portfolio_value_def execute_trade_unfold Let_def held_def)

lemma scenario_drawdown:
  "max_drawdown (state_of (run_events scenario_events sim_10000)) = 2 / 21"
  by (simp add: scenario_events_def sim_10000_def new_simulator_def new_Portfolio_def
      buy_signal_def update_portfolio_value_def execute_trade_unfold Let_def held_def)

text \<open>
  Claim C5.  On a simulator as the constructor leaves it (peak value at the initial
  capital, no drawdown) with a positive initial capital, along any run of valuations and
  executions the max drawdown statistic never decreases, and after every prefix of the
  run that holds at least one valuation it equals the maximum, over the ticks marked so
  far, of (peak so far - total value) / peak so far, the peak so far being the maximum of
  the initial capital and the total values marked up to that tick.
\<close>

theorem max_drawdown_statistic:
  assumes "0 < initial_capital s"
    and "peak_value s = initial_capital s"
    and "max_drawdown s = 0"
  shows "(\<forall>n m. n \<le> m \<longrightarrow>
            max_drawdown (state_of (run_events (take n evs) s))
              \<le> max_drawdown (state_of (run_events (take m evs) s)))
       \<and> (\<forall>n. marked_values (take n evs) s \<noteq> [] \<longrightarrow>
            max_drawdown (state_of (run_events (take n evs) s)) =
            max_drawdown_spec (initial_capital s) (marked_values (take n evs) s))"
proof (intro conjI allI impI)
  fix n m :: nat
  assume "n \<le> m"
  then show "max_drawdown (state_of (run_events (take n evs) s))
      \<le> max_drawdown (state_of (run_events (take m evs) s))"
    by (rule run_events_prefix_mono)
next
  fix n
  assume ne: "marked_values (take n evs) s \<noteq> []"
  have "tracks (initial_capital s) [] s"
    using assms by (simp add: tracks_def)
  from tracks_run [OF this, of "take n evs"]
  have "tracks (initial_capital s) (marked_values (take n evs) s)
      (state_of (run_events (take n evs) s))"
    by simp
  with ne show "max_drawdown (state_of (run_events (take n evs) s)) =
      max_drawdown_spec (initial_capital s) (marked_values (take n evs) s)"
    by (simp add: tracks_def)
qed

theorem max_drawdown_statistic_witness:
  "0 < initial_capital sim_10000
   \<and> marked_values scenario_events sim_10000 = [10000, 10000, 10500, 9500, 9500]
   \<and> max_drawdown (state_of (run_events scenario_events sim_10000)) = 2 / 21
   \<and> max_drawdown_spec 10000 [10000, 10000, 10500, 9500, 9500] = 2 / 21
   \<and> max_drawdown (state_of (run_events (take 4 scenario_events) sim_10000)) \<le> 2 / 21"
proof -
  have h1: "0 < initial_capital sim_10000"
    and h2: "peak_value sim_10000 = initial_capital sim_10000"
    and h3: "max_drawdown sim_10000 = 0"
    and ic: "initial_capital sim_10000 = 10000"
    by (simp_all add: sim_10000_def new_simulator_def)
  have len: "take 6 scenario_events = scenario_events"
    by (simp add: scenario_events_def)
  note main = max_drawdown_statistic [OF h1 h2 h3, of scenario_events]
  from main have "marked_values (take 6 scenario_events) sim_10000 \<noteq> [] \<longrightarrow>
      max_drawdown (state_of (run_events (take 6 scenario_events) sim_10000)) =
      max_drawdown_spec (initial_capital sim_10000) (marked_values (take 6 scenario_events) sim_10000)"
    by blast
  then have a: "max_drawdown (state_of (run_events scenario_events sim_10000)) =
      max_drawdown_spec 10000 [10000, 10000, 10500, 9500, 9500]"
    by (simp add: len scenario_marked ic)
  from main have "(4::nat) \<le> 6 \<longrightarrow>
      max_drawdown (state_of (run_events (take 4 scenario_events) sim_10000))
        \<le> max_drawdown (state_of (run_events (take 6 scenario_events) sim_10000))"
    by blast
  then have b: "max_drawdown (state_of (run_events (take 4 scenario_events) sim_10000)) \<le> 2 / 21"
    by (simp add: len scenario_drawdown)
  show ?thesis using h1 a b by (simp add: scenario_marked scenario_drawdown)
qed

section \<open>Properties of the benchmark tracker\<close>

declare run_loop.simps [simp del]

lemma benchmark_symbol_valid:
  "benchmark_symbol t hdata (Some d) symb acc =
     (if has_valid_data hdata d t symb
      then (fst acc + simple_return hdata d t symb, Suc (snd acc))
      else acc)"
  by (simp add: benchmark_symbol_def has_valid_data_def simple_return_def prices_at_def
      split: option.splits)

lemma fold_benchmark_symbol:
  "fold (benchmark_symbol t hdata (Some d)) syms acc =
     (fst acc + sum_list (valid_returns hdata d t syms),
      snd acc + length (valid_returns hdata d t syms))"
proof (induction syms arbitrary: acc)
  case Nil
  then show ?case by (simp add: valid_returns_def)
next
  case (Cons a syms)
  have "fold (benchmark_symbol t hdata (Some d)) (a # syms) acc =
      fold (benchmark_symbol t hdata (Some d)) syms (benchmark_symbol t hdata (Some d) a acc)"
    by simp
  also have "\<dots> =
      (fst (benchmark_symbol t hdata (Some d) a acc) + sum_list (valid_returns hdata d t syms),
       snd (benchmark_symbol t hdata (Some d) a acc) + length (valid_returns hdata d t syms))"
    by (rule Cons.IH)
  also have "\<dots> = (fst acc + sum_list (valid_returns hdata d t (a # syms)),
      snd acc + length (valid_returns hdata d t (a # syms)))"
    by (simp add: benchmark_symbol_valid valid_returns_def)
  finally show ?case .
qed

lemma calculate_benchmark_value_mean:
  assumes "benchmark_values s \<noteq> []" and "last_benchmark_date s = Some d"
  shows "fst (calculate_benchmark_value t hdata s) =
     (if valid_returns hdata d t (symbols s) = [] then last (benchmark_values s)
      else last (benchmark_values s) * (1 + mean (valid_returns hdata d t (symbols s))))"
  using assms
  by (simp add: calculate_benchmark_value_def Let_def fold_benchmark_symbol mean_def)

lemma constant_prices_same:
  assumes "constant_prices hdata" and "map_of hdata symb = Some df"
    and "map_of df t1 = Some p1" and "map_of df t2 = Some p2"
  shows "p1 = p2"
proof -
  from assms(2) have "(symb, df) \<in> set hdata" by (rule map_of_SomeD)
  moreover from assms(3) have "(t1, p1) \<in> set df" by (rule map_of_SomeD)
  moreover from assms(4) have "(t2, p2) \<in> set df" by (rule map_of_SomeD)
  ultimately show ?thesis using assms(1) unfolding constant_prices_def by fastforce
qed

lemma benchmark_symbol_constant:
  assumes "constant_prices hdata" and "fst acc = 0"
  shows "fst (benchmark_symbol t hdata lbd symb acc) = 0"
  using assms constant_prices_same [OF assms(1)]
  by (auto simp: benchmark_symbol_def split: option.splits)

lemma fold_benchmark_symbol_constant:
  assumes "constant_prices hdata" and "fst acc = 0"
  shows "fst (fold (benchmark_symbol t hdata lbd) syms acc) = 0"
  using assms(2)
proof (induction syms arbitrary: acc)
  case Nil
  then show ?case by simp
next
  case (Cons a syms)
  have "fst (benchmark_symbol t hdata lbd a acc) = 0"
    using assms(1) Cons.prems by (rule benchmark_symbol_constant)
  from Cons.IH [OF this] show ?case by simp
qed

lemma calculate_benchmark_value_constant:
  assumes "constant_prices hdata" and "flat_benchmark ic s"
  shows "fst (calculate_benchmark_value t hdata s) = ic"
proof (cases "benchmark_values s = []")
  case True
  then show ?thesis using assms(2) by (simp add: calculate_benchmark_value_def flat_benchmark_def)
next
  case False
  then have "last (benchmark_values s) \<in> set (benchmark_values s)" by simp
  with assms(2) have l: "last (benchmark_values s) = ic"
    by (simp add: flat_benchmark_def)
  have z: "fst (fold (benchmark_symbol t hdata (last_benchmark_date s)) (symbols s) (0, 0)) = 0"
    using assms(1) by (rule fold_benchmark_symbol_constant) simp
  show ?thesis using False by (simp add: calculate_benchmark_value_def Let_def z l)
qed

lemma calculate_benchmark_value_fields:
  "benchmark_values (snd (calculate_benchmark_value t hdata s)) = benchmark_values s"
  "initial_capital (snd (calculate_benchmark_value t hdata s)) = initial_capital s"
  by (simp_all add: calculate_benchmark_value_def Let_def)

lemma record_tick_flat:
  assumes "constant_prices hdata" and "flat_benchmark ic s"
  shows "flat_benchmark ic (record_tick t hdata s)"
  using assms(2) calculate_benchmark_value_constant [OF assms, of t]
  by (simp add: record_tick_def Let_def flat_benchmark_def calculate_benchmark_value_fields)

lemma execute_trade_benchmark:
  fixes s :: HistoricalSimulator
  shows "benchmark_values (state_of (execute_trade_float rnd numpy_price symb sg pr ts s)) =
           benchmark_values s"
    and "initial_capital (state_of (execute_trade_float rnd numpy_price symb sg pr ts s)) =
           initial_capital s"
  by (simp_all add: execute_trade_float_def Let_def)

lemma update_portfolio_value_benchmark:
  fixes s :: HistoricalSimulator
  shows "benchmark_values (state_of (update_portfolio_value cp s)) = benchmark_values s"
    and "initial_capital (state_of (update_portfolio_value cp s)) = initial_capital s"
  by (simp_all add: update_portfolio_value_def Let_def)

lemma execute_signals_benchmark:
  fixes s :: HistoricalSimulator
  shows "benchmark_values (state_of (execute_signals numpy_price cp ts sigs s)) = benchmark_values s
       \<and> initial_capital (state_of (execute_signals numpy_price cp ts sigs s)) = initial_capital s"
proof (induction sigs arbitrary: s)
  case Nil
  then show ?case by simp
next
  case (Cons a sigs)
  obtain symb sg where a: "a = (symb, sg)" by (cases a)
  show ?case
  proof (cases "cp symb")
    case None
    then show ?thesis using Cons.IH by (simp add: a)
  next
    case (Some pr)
    show ?thesis
    proof (cases "execute_trade_float (\<lambda>x. x) numpy_price symb sg pr ts s")
      case (Ok s')
      then show ?thesis
        using Cons.IH [of s'] execute_trade_benchmark [of "\<lambda>x. x" numpy_price symb sg pr ts s]
        by (simp add: a Some)
    next
      case (Raised e s')
      then show ?thesis
        using execute_trade_benchmark [of "\<lambda>x. x" numpy_price symb sg pr ts s]
        by (simp add: a Some)
    qed
  qed
qed

lemma process_day_flat:
  assumes "flat_benchmark ic s"
  shows "flat_benchmark ic (state_of (process_day algorithm t hdata s))"
proof (cases "update_portfolio_value (prices_at hdata t) s")
  case (Raised e s')
  then show ?thesis
    using assms update_portfolio_value_benchmark [of "prices_at hdata t" s]
    by (simp add: process_day_def flat_benchmark_def)
next
  case (Ok s1)
  then have s1: "benchmark_values s1 = benchmark_values s" "initial_capital s1 = initial_capital s"
    using update_portfolio_value_benchmark [of "prices_at hdata t" s] by simp_all
  show ?thesis
  proof (cases "algorithm t hdata (portfolio s1)")
    case (Inl e)
    then show ?thesis using assms s1 Ok by (simp add: process_day_def flat_benchmark_def)
  next
    case (Inr sigs)
    then show ?thesis
      using assms s1 Ok execute_signals_benchmark [of True "prices_at hdata t" t sigs s1]
      by (simp add: process_day_def flat_benchmark_def)
  qed
qed

lemma run_loop_flat:
  assumes "constant_prices hdata" and "flat_benchmark ic s"
  shows "flat_benchmark ic (state_of (run_loop algorithm hdata last_date t s))"
  using assms
proof (induction algorithm hdata last_date t s rule: run_loop.induct)
  case (1 algorithm hdata last_date t s)
  note const = "1.prems"(1) and flat = "1.prems"(2)
  show ?case
  proof (cases "t \<le> last_date")
    case False
    then show ?thesis using flat by (simp add: run_loop.simps [of _ _ last_date t])
  next
    case True
    show ?thesis
    proof (cases "process_day algorithm t hdata s")
      case (Raised e s')
      then show ?thesis
        using process_day_flat [OF flat, of algorithm t hdata] True
        by (simp add: run_loop.simps [of _ _ last_date t])
    next
      case (Ok s1)
      then have fb: "flat_benchmark ic s1"
        using process_day_flat [OF flat, of algorithm t hdata] by simp
      have "flat_benchmark ic (record_tick (t + 3600) hdata s1)"
        using const fb by (rule record_tick_flat)
      from "1.IH" [OF True Ok const this] show ?thesis
        using True Ok by (simp add: run_loop.simps [of _ _ last_date t])
    qed
  qed
qed

lemma reset_simulation_fields:
  "benchmark_values (reset_simulation s) = []"
  "last_benchmark_date (reset_simulation s) = None"
  "portfolio_history (reset_simulation s) = []"
  "trades (reset_simulation s) = []"
  "portfolio (reset_simulation s) = new_Portfolio (initial_capital s)"
  "initial_capital (reset_simulation s) = initial_capital s"
  "symbols (reset_simulation s) = symbols s"
  "peak_value (reset_simulation s) = initial_capital s"
  "max_drawdown (reset_simulation s) = 0"
  by (simp_all add: reset_simulation_def reset_benchmark_def)

lemma run_flat:
  assumes "constant_prices (fetch_all data_provider (symbols s))"
  shows "flat_benchmark (initial_capital s) (state_of (run algorithm data_provider s))"
proof -
  have f: "flat_benchmark (initial_capital s) (reset_simulation s)"
    by (simp add: flat_benchmark_def reset_simulation_fields)
  show ?thesis
  proof (cases "fetch_all data_provider (symbols s) = []")
    case True
    then show ?thesis using f by (simp add: run_def Let_def reset_simulation_fields)
  next
    case False
    then show ?thesis
      using run_loop_flat [OF assms f] by (simp add: run_def Let_def reset_simulation_fields)
  qed
qed

lemma calculate_benchmark_value_date:
  "last_benchmark_date (snd (calculate_benchmark_value t hdata s)) = Some t"
  by (simp add: calculate_benchmark_value_def Let_def)

lemma fetch_all_flat:
  "fetch_all provider_flat [''BTC'', ''ETH''] =
     [(''BTC'', [(0, 100), (3600, 100), (7200, 100)]),
      (''ETH'', [(0, 2000), (3600, 2000), (7200, 2000)])]"
  by (simp add: fetch_all_def provider_flat_def)

lemma run_flat_example:
  "benchmark_values (state_of (run no_signals provider_flat hist_btc_eth)) = [10000, 10000, 10000]"
  by (simp add: run_def Let_def reset_simulation_fields hist_btc_eth_def
      new_HistoricalSimulator_def fetch_all_flat min_date_def max_date_def run_loop.simps
      process_day_def prices_at_def update_portfolio_value_def no_signals_def
      reset_simulation_def reset_benchmark_def new_Portfolio_def record_tick_def
      calculate_benchmark_value_def benchmark_symbol_def)

text \<open>
  Claim C6.  The first benchmark tick yields the initial capital.  Every later tick
  yields the previous benchmark value times (1 + the arithmetic mean of the simple
  returns (p\_now - p\_prev) / p\_prev over exactly the tracked symbols that have a price
  at the current tick and a positive price at the recorded reference timestamp), and the
  previous value unchanged when no symbol has such data; the reference timestamp becomes
  the current tick.  Consequently, when every symbol's price series is constant, all the
  benchmark values that a run records equal the initial capital.
\<close>

theorem benchmark_tracker_update:
  "(benchmark_values s = [] \<longrightarrow> fst (calculate_benchmark_value t hdata s) = initial_capital s)
   \<and> (benchmark_values s \<noteq> [] \<and> last_benchmark_date s = Some d \<longrightarrow>
        fst (calculate_benchmark_value t hdata s) =
          (if valid_returns hdata d t (symbols s) = [] then last (benchmark_values s)
           else last (benchmark_values s) * (1 + mean (valid_returns hdata d t (symbols s)))))
   \<and> last_benchmark_date (snd (calculate_benchmark_value t hdata s)) = Some t
   \<and> (constant_prices (fetch_all data_provider (symbols s)) \<longrightarrow>
        (\<forall>v \<in> set (benchmark_values (state_of (run algorithm data_provider s))).
           v = initial_capital s))"
proof (intro conjI impI)
  assume "benchmark_values s = []"
  then show "fst (calculate_benchmark_value t hdata s) = initial_capital s"
    by (simp add: calculate_benchmark_value_def)
next
  assume "benchmark_values s \<noteq> [] \<and> last_benchmark_date s = Some d"
  then show "fst (calculate_benchmark_value t hdata s) =
      (if valid_returns hdata d t (symbols s) = [] then last (benchmark_values s)
       else last (benchmark_values s) * (1 + mean (valid_returns hdata d t (symbols s))))"
    by (simp add: calculate_benchmark_value_mean)
next
  show "last_benchmark_date (snd (calculate_benchmark_value t hdata s)) = Some t"
    by (rule calculate_benchmark_value_date)
next
  assume "constant_prices (fetch_all data_provider (symbols s))"
  then have "flat_benchmark (initial_capital s) (state_of (run algorithm data_provider s))"
    by (rule run_flat)
  then show "\<forall>v \<in> set (benchmark_values (state_of (run algorithm data_provider s))).
      v = initial_capital s"
    by (simp add: flat_benchmark_def)
qed

theorem benchmark_tracker_update_witness:
  "valid_returns data_up_down 0 3600 (symbols hist_tracking) = [1 / 10, - 1 / 10]
   \<and> fst (calculate_benchmark_value 3600 data_up_down hist_tracking) = 10000
   \<and> constant_prices (fetch_all provider_flat (symbols hist_btc_eth))
   \<and> benchmark_values (state_of (run no_signals provider_flat hist_btc_eth)) = [10000, 10000, 10000]
   \<and> list_all (\<lambda>v. v = initial_capital hist_btc_eth)
        (benchmark_values (state_of (run no_signals provider_flat hist_btc_eth)))"
proof -
  have syms: "symbols hist_tracking = [''BTC'', ''ETH'']" "symbols hist_btc_eth = [''BTC'', ''ETH'']"
    by (simp_all add: hist_tracking_def hist_btc_eth_def new_HistoricalSimulator_def)
  have h1: "benchmark_values hist_tracking \<noteq> [] \<and> last_benchmark_date hist_tracking = Some 0"
    by (simp add: hist_tracking_def)
  have l: "last (benchmark_values hist_tracking) = 10000"
    by (simp add: hist_tracking_def)
  have v: "valid_returns data_up_down 0 3600 (symbols hist_tracking) = [1 / 10, - 1 / 10]"
    by (simp add: syms valid_returns_def has_valid_data_def simple_return_def prices_at_def
        data_up_down_def)
  have h2: "constant_prices (fetch_all provider_flat (symbols hist_btc_eth))"
    by (simp add: syms fetch_all_flat constant_prices_def)
  note main = benchmark_tracker_update [of hist_tracking 3600 data_up_down 0]
  from main h1 have "fst (calculate_benchmark_value 3600 data_up_down hist_tracking) =
      (if valid_returns data_up_down 0 3600 (symbols hist_tracking) = []
       then last (benchmark_values hist_tracking)
       else last (benchmark_values hist_tracking)
              * (1 + mean (valid_returns data_up_down 0 3600 (symbols hist_tracking))))"
    by blast
  then have a: "fst (calculate_benchmark_value 3600 data_up_down hist_tracking) = 10000"
    by (simp add: v l mean_def)
  from benchmark_tracker_update [of hist_btc_eth _ _ _ provider_flat no_signals] h2
  have "\<forall>v \<in> set (benchmark_values (state_of (run no_signals provider_flat hist_btc_eth))).
      v = initial_capital hist_btc_eth"
    by blast
  then have b: "list_all (\<lambda>v. v = initial_capital hist_btc_eth)
      (benchmark_values (state_of (run no_signals provider_flat hist_btc_eth)))"
    by (simp add: list_all_iff)
  show ?thesis using v a h2 b by (simp add: run_flat_example)
qed

section \<open>Properties of the scheduled-replay driver\<close>

lemmas replay_eval =
  run_def Let_def new_HistoricalSimulator_def min_date_def max_date_def run_loop.simps
  process_day_def prices_at_def update_portfolio_value_def reset_simulation_def
  reset_benchmark_def new_Portfolio_def record_tick_def calculate_benchmark_value_def
  benchmark_symbol_def execute_trade_float_def held_def fetch_all_def

lemma sim_all_in_eq:
  "sim_all_in = sim_10000
     \<lparr>portfolio := \<lparr>total_value = 10000, cash = 0, positions = [(''BTC'', 100)],
                     unrealized_pnl = 0, realized_pnl = 0\<rparr>,
      trades := [\<lparr>trade_timestamp = 0, trade_symbol = ''BTC'', trade_side = ''buy'',
                  trade_quantity = 100, trade_price = 100, trade_value = 10000,
                  trade_algorithm = ''SimpleMomentumStrategy'', trade_commission = 0\<rparr>]\<rparr>"
  by (simp add: sim_all_in_def sim_10000_def new_simulator_def new_Portfolio_def
      buy_signal_def execute_trade_unfold Let_def held_def)

text \<open>
  Claim C10, the part the code breaks.  With 10000 of capital, BTC at 100 and ETH at
  2000, the strategy asks at the first tick for 150 BTC and then for 1 ETH.  The buy of
  BTC is capped at 100 and spends all the cash.  For the buy of ETH the executable
  quantity is min(1, 0 / 2000) = 0; its cost 0 passes the test against the available
  cash 0, so a trade of quantity 0 is appended to the ledger and ETH enters the positions
  with quantity 0.  The sell branch tests the quantity itself and records nothing in the
  same situation.  The run of the scheduled-replay driver shows the state to be reachable;
  the last two lines are the execution unit alone on the state after the first buy.
\<close>

theorem zero_quantity_buy_is_recorded:
  "is_ok (run buy_both_at_start provider_flat hist_btc_eth)
   \<and> map trade_symbol (trades (state_of (run buy_both_at_start provider_flat hist_btc_eth)))
       = [''BTC'', ''ETH'']
   \<and> map trade_side (trades (state_of (run buy_both_at_start provider_flat hist_btc_eth)))
       = [''buy'', ''buy'']
   \<and> map trade_quantity (trades (state_of (run buy_both_at_start provider_flat hist_btc_eth)))
       = [100, 0]
   \<and> map trade_value (trades (state_of (run buy_both_at_start provider_flat hist_btc_eth)))
       = [10000, 0]
   \<and> cash (portfolio (state_of (run buy_both_at_start provider_flat hist_btc_eth))) = 0
   \<and> positions (portfolio (state_of (run buy_both_at_start provider_flat hist_btc_eth)))
       = [(''BTC'', 100), (''ETH'', 0)]
   \<and> cash (portfolio sim_all_in) = 0
   \<and> positions (portfolio sim_all_in) = [(''BTC'', 100)]
   \<and> execute_trade ''ETH'' (buy_signal 1) 2000 0 sim_all_in =
       Ok (sim_all_in
            \<lparr>portfolio := \<lparr>total_value = 10000, cash = 0,
                            positions = [(''BTC'', 100), (''ETH'', 0)],
                            unrealized_pnl = 0, realized_pnl = 0\<rparr>,
             trades := trades sim_all_in @
                      [\<lparr>trade_timestamp = 0, trade_symbol = ''ETH'', trade_side = ''buy'',
                        trade_quantity = 0, trade_price = 2000, trade_value = 0,
                        trade_algorithm = ''SimpleMomentumStrategy'', trade_commission = 0\<rparr>]\<rparr>)
   \<and> execute_trade ''ETH'' (sell_signal 1) 2000 0 sim_all_in = Ok sim_all_in"
proof -
  have r: "run buy_both_at_start provider_flat hist_btc_eth =
      Ok (state_of (run buy_both_at_start provider_flat hist_btc_eth))
    \<and> map trade_symbol (trades (state_of (run buy_both_at_start provider_flat hist_btc_eth)))
       = [''BTC'', ''ETH'']
    \<and> map trade_side (trades (state_of (run buy_both_at_start provider_flat hist_btc_eth)))
       = [''buy'', ''buy'']
    \<and> map trade_quantity (trades (state_of (run buy_both_at_start provider_flat hist_btc_eth)))
       = [100, 0]
    \<and> map trade_value (trades (state_of (run buy_both_at_start provider_flat hist_btc_eth)))
       = [10000, 0]
    \<and> cash (portfolio (state_of (run buy_both_at_start provider_flat hist_btc_eth))) = 0
    \<and> positions (portfolio (state_of (run buy_both_at_start provider_flat hist_btc_eth)))
       = [(''BTC'', 100), (''ETH'', 0)]"
    by (simp add: run_def Let_def new_HistoricalSimulator_def min_date_def max_date_def
        run_loop.simps process_day_def prices_at_def update_portfolio_value_def
        reset_simulation_def reset_benchmark_def new_Portfolio_def record_tick_def
        calculate_benchmark_value_def benchmark_symbol_def execute_trade_float_def held_def
        fetch_all_flat hist_btc_eth_def buy_both_at_start_def buy_signal_def)
  have u: "execute_trade ''ETH'' (buy_signal 1) 2000 0 sim_all_in =
       Ok (sim_all_in
            \<lparr>portfolio := \<lparr>total_value = 10000, cash = 0,
                            positions = [(''BTC'', 100), (''ETH'', 0)],
                            unrealized_pnl = 0, realized_pnl = 0\<rparr>,
             trades := trades sim_all_in @
                      [\<lparr>trade_timestamp = 0, trade_symbol = ''ETH'', trade_side = ''buy'',
                        trade_quantity = 0, trade_price = 2000, trade_value = 0,
                        trade_algorithm = ''SimpleMomentumStrategy'', trade_commission = 0\<rparr>]\<rparr>)"
    by (simp add: sim_all_in_eq sim_10000_def new_simulator_def new_Portfolio_def
        buy_signal_def execute_trade_unfold Let_def held_def)
  have v: "execute_trade ''ETH'' (sell_signal 1) 2000 0 sim_all_in = Ok sim_all_in"
    by (simp add: sim_all_in_eq sell_signal_def execute_trade_unfold Let_def held_def)
  have w: "cash (portfolio sim_all_in) = 0" "positions (portfolio sim_all_in) = [(''BTC'', 100)]"
    by (simp_all add: sim_all_in_eq)
  from r have "is_ok (run buy_both_at_start provider_flat hist_btc_eth)"
    by (metis is_ok.simps(1))
  with r u v w show ?thesis by simp
qed

text \<open>
  Claim C7 fails on the code.  BTC closes at 100 at timestamp 0 and at 110 one hour later
  (timestamp 3600); the strategy buys 50 BTC at the first tick.  The run has two ticks.
  The second tick marks the portfolio at timestamp 3600 (5000 of cash and 50 BTC at 110,
  that is 10500), but the loop advances current\_date before it values the benchmark, so
  the benchmark of that tick is computed at timestamp 7200, where BTC has no price: it is
  carried forward at 10000, and both go into one history entry stamped 7200.  Valued at
  timestamp 3600 against the reference timestamp 0, the benchmark would be 11000.
\<close>

theorem benchmark_valued_one_hour_late:
  "is_ok (run buy_at_start provider_rising hist_btc)
   \<and> map entry_timestamp (portfolio_history (state_of (run buy_at_start provider_rising hist_btc)))
       = [3600, 7200]
   \<and> map entry_total_value (portfolio_history (state_of (run buy_at_start provider_rising hist_btc)))
       = [10000, 5000 + 50 * 110]
   \<and> map entry_benchmark_value (portfolio_history (state_of (run buy_at_start provider_rising hist_btc)))
       = [10000, 10000]
   \<and> last_benchmark_date (state_of (run buy_at_start provider_rising hist_btc)) = Some 7200
   \<and> prices_at (fetch_all provider_rising [''BTC'']) 3600 ''BTC'' = Some 110
   \<and> prices_at (fetch_all provider_rising [''BTC'']) 7200 ''BTC'' = None
   \<and> fst (calculate_benchmark_value 3600 (fetch_all provider_rising [''BTC''])
           (hist_btc\<lparr>benchmark_values := [10000], last_benchmark_date := Some 0\<rparr>)) = 11000"
  by (simp add: replay_eval hist_btc_def provider_rising_def buy_at_start_def buy_signal_def)

text \<open>
  Claim C8 fails on the scheduled-replay driver.  With a strategy that raises, the
  exception leaves \_process\_day at the first tick and run re-raises it: the run ends
  there, with no history entry.  The live driver, given the same strategy, catches the
  exception in \_generate\_signals, treats the tick as one without signals and appends its
  history entry.
\<close>

theorem strategy_exception_aborts_replay:
  "run failing_strategy provider_rising hist_btc = Raised StrategyException hist_btc
   \<and> portfolio_history hist_btc = []
   \<and> is_ok (process_realtime_update failing_strategy 0 [(''BTC'', 100)] rt_btc)
   \<and> trades (state_of (process_realtime_update failing_strategy 0 [(''BTC'', 100)] rt_btc)) = []
   \<and> map entry_total_value (rt_portfolio_history
        (state_of (process_realtime_update failing_strategy 0 [(''BTC'', 100)] rt_btc))) = [10000]"
  by (simp add: replay_eval hist_btc_def provider_rising_def failing_strategy_def
      process_realtime_update_def rt_btc_def new_RealtimeSimulator_def generate_signals_def
      update_historical_cache_def)

text \<open>The live driver never lets a strategy exception out, whatever the strategy.\<close>

lemma generate_signals_recovers:
  "algorithm ts (historical_data_cache s) (portfolio s) = Inl e \<Longrightarrow>
   generate_signals algorithm ts s = []"
  by (simp add: generate_signals_def)

lemma update_nonempty: "AList.update k v al \<noteq> []"
  by (cases al) auto

lemma fold_fetch_empty:
  "fold (\<lambda>symb historical_data.
           if data_provider symb \<noteq> [] then AList.update symb (data_provider symb) historical_data
           else historical_data) syms acc = []
   \<longleftrightarrow> acc = [] \<and> (\<forall>symb \<in> set syms. data_provider symb = [])"
  by (induction syms arbitrary: acc) (auto simp: update_nonempty)

lemma fetch_all_empty:
  "fetch_all data_provider syms = [] \<longleftrightarrow> (\<forall>symb \<in> set syms. data_provider symb = [])"
  by (simp add: fetch_all_def fold_fetch_empty)

text \<open>
  Claim C9 as stated fails.  BTC has data at timestamps 0 and 3600 only, ETH at 36000 and
  39600 only: the two ranges do not overlap (the common range would start at 36000 and
  end at 3600).  The run executes no tick, and it returns normally: no failure is
  reported.
\<close>

theorem disjoint_data_is_not_reported:
  "fetch_all provider_disjoint (symbols hist_btc_eth) =
     [(''BTC'', [(0, 100), (3600, 110)]), (''ETH'', [(36000, 2000), (39600, 2000)])]
   \<and> min_date (fetch_all provider_disjoint (symbols hist_btc_eth)) = 36000
   \<and> max_date (fetch_all provider_disjoint (symbols hist_btc_eth)) = 3600
   \<and> run no_signals provider_disjoint hist_btc_eth = Ok hist_btc_eth
   \<and> is_ok (run no_signals provider_disjoint hist_btc_eth)"
  by (simp add: replay_eval hist_btc_eth_def provider_disjoint_def no_signals_def)

text \<open>
  Claim C9 as amended.  When no requested symbol has any data, the run raises ValueError
  before any tick executes; when some symbols have data but the latest start lies after
  the earliest end, the run executes no tick and returns normally.  In both cases the
  simulator is left as the reset at the start of the run made it: the portfolio holds the
  initial capital in cash, the trade ledger and the history are empty.
\<close>

theorem no_data_is_fatal:
  "((\<forall>symb \<in> set (symbols s). data_provider symb = []) \<longrightarrow>
      run algorithm data_provider s =
        Raised (ValueError ''No historical data available for any symbol'') (reset_simulation s))
   \<and> (\<not> (\<forall>symb \<in> set (symbols s). data_provider symb = []) \<and>
        max_date (fetch_all data_provider (symbols s)) < min_date (fetch_all data_provider (symbols s)) \<longrightarrow>
      run algorithm data_provider s = Ok (reset_simulation s))
   \<and> portfolio (reset_simulation s) = new_Portfolio (initial_capital s)
   \<and> trades (reset_simulation s) = []
   \<and> portfolio_history (reset_simulation s) = []"
proof (intro conjI impI)
  assume "\<forall>symb \<in> set (symbols s). data_provider symb = []"
  then have "fetch_all data_provider (symbols s) = []" by (simp add: fetch_all_empty)
  then show "run algorithm data_provider s =
      Raised (ValueError ''No historical data available for any symbol'') (reset_simulation s)"
    by (simp add: run_def Let_def reset_simulation_fields)
next
  assume a: "\<not> (\<forall>symb \<in> set (symbols s). data_provider symb = []) \<and>
      max_date (fetch_all data_provider (symbols s)) < min_date (fetch_all data_provider (symbols s))"
  then have ne: "fetch_all data_provider (symbols s) \<noteq> []" by (simp add: fetch_all_empty)
  from a have "\<not> min_date (fetch_all data_provider (symbols s))
      \<le> max_date (fetch_all data_provider (symbols s))" by simp
  then have "run_loop algorithm (fetch_all data_provider (symbols s))
      (max_date (fetch_all data_provider (symbols s)))
      (min_date (fetch_all data_provider (symbols s))) (reset_simulation s) = Ok (reset_simulation s)"
    by (subst run_loop.simps) simp
  then show "run algorithm data_provider s = Ok (reset_simulation s)"
    using ne by (simp add: run_def Let_def reset_simulation_fields)
qed (simp_all add: reset_simulation_fields)

theorem no_data_is_fatal_witness:
  "run no_signals provider_empty hist_btc_eth =
     Raised (ValueError ''No historical data available for any symbol'') hist_btc_eth
   \<and> run no_signals provider_disjoint hist_btc_eth = Ok hist_btc_eth
   \<and> portfolio hist_btc_eth = new_Portfolio 10000
   \<and> trades hist_btc_eth = []
   \<and> portfolio_history hist_btc_eth = []"
proof -
  have r: "reset_simulation hist_btc_eth = hist_btc_eth"
    by (simp add: reset_simulation_def reset_benchmark_def hist_btc_eth_def
        new_HistoricalSimulator_def)
  have syms: "symbols hist_btc_eth = [''BTC'', ''ETH'']"
    and ic: "initial_capital hist_btc_eth = 10000"
    by (simp_all add: hist_btc_eth_def new_HistoricalSimulator_def)
  have h1: "\<forall>symb \<in> set (symbols hist_btc_eth). provider_empty symb = []"
    by (simp add: provider_empty_def)
  have f: "fetch_all provider_disjoint (symbols hist_btc_eth) =
      [(''BTC'', [(0, 100), (3600, 110)]), (''ETH'', [(36000, 2000), (39600, 2000)])]"
    by (simp add: syms fetch_all_def provider_disjoint_def)
  have h2: "\<not> (\<forall>symb \<in> set (symbols hist_btc_eth). provider_disjoint symb = []) \<and>
      max_date (fetch_all provider_disjoint (symbols hist_btc_eth))
        < min_date (fetch_all provider_disjoint (symbols hist_btc_eth))"
    unfolding f by (simp add: syms provider_disjoint_def min_date_def max_date_def)
  from no_data_is_fatal [of hist_btc_eth provider_empty no_signals] h1
  have a: "run no_signals provider_empty hist_btc_eth =
      Raised (ValueError ''No historical data available for any symbol'') hist_btc_eth"
    unfolding r by blast
  from no_data_is_fatal [of hist_btc_eth provider_disjoint no_signals] h2
  have b: "run no_signals provider_disjoint hist_btc_eth = Ok hist_btc_eth"
    unfolding r by blast
  from no_data_is_fatal [of hist_btc_eth provider_empty no_signals]
  have c: "portfolio hist_btc_eth = new_Portfolio 10000 \<and> trades hist_btc_eth = []
      \<and> portfolio_history hist_btc_eth = []"
    unfolding r ic by blast
  show ?thesis using a b c by simp
qed

section \<open>Properties of the performance metrics\<close>

lemma rt_after_outage_state:
  "map entry_total_value (rt_portfolio_history rt_after_outage) = [10000, 0, 0]
   \<and> length (rt_portfolio_history rt_after_outage) = 3
   \<and> total_value (portfolio rt_after_outage) = 0
   \<and> initial_capital rt_after_outage = 10000
   \<and> max_drawdown rt_after_outage = 1
   \<and> map trade_side (trades rt_after_outage) = [''buy'']
   \<and> is_running rt_after_outage"
  by (simp add: rt_after_outage_def rt_btc_def new_RealtimeSimulator_def new_Portfolio_def
      process_realtime_update_def Let_def update_portfolio_value_def
      update_historical_cache_def generate_signals_def all_in_at_start_def buy_signal_def
      execute_trade_float_def held_def)

text \<open>
  Claim C4 fails on the live driver.  The strategy buys 100 BTC at 100 with the whole
  capital of 10000; the next two price fetches fail, so the feed delivers the price 0.0
  twice and the portfolio is marked at 0 twice.  The value history is 10000, 0, 0; the
  daily returns are -1 and 0 / 0, which is NaN; their mean and their standard deviation
  are NaN, and get\_performance\_metrics returns both as they are, as daily return and as
  volatility.
\<close>

theorem live_metrics_report_nan:
  "map entry_total_value (rt_portfolio_history rt_after_outage) = [10000, 0, 0]
   \<and> get_performance_metrics rt_after_outage =
       Inr (Some \<lparr>metric_total_return = Fin (- 1), metric_daily_return = NaN,
                  metric_sharpe_ratio = Fin 0, metric_max_drawdown = Fin 1,
                  metric_win_rate = Fin 0, metric_volatility = NaN,
                  metric_total_trades = 1, metric_is_running = True\<rparr>)
   \<and> \<not> is_finite NaN"
proof -
  note st = rt_after_outage_state
  from st obtain e1 e2 e3 where h: "rt_portfolio_history rt_after_outage = [e1, e2, e3]"
    by (cases "rt_portfolio_history rt_after_outage" rule: list.exhaust) auto
  have vals: "map (\<lambda>p. Fin (entry_total_value p)) (rt_portfolio_history rt_after_outage)
      = [Fin 10000, Fin 0, Fin 0]"
    using st by (auto simp: h)
  have tr: "length (trades rt_after_outage) = 1" "filter is_winning_trade (trades rt_after_outage) = []"
    using st by (auto simp: is_winning_trade_def map_eq_Cons_conv)
  have ne: "trades rt_after_outage \<noteq> []" using tr(1) by auto
  show ?thesis
    using st ne
    by (simp add: get_performance_metrics_def Let_def vals tr np_mean_def np_std_def fsub_def h)
qed

section \<open>The drivers' ticks are runs of valuations and executions\<close>

lemma hold_signal_no_effect:
  "execute_trade symb hold_signal pr ts s = Ok s"
  by (simp add: execute_trade_unfold hold_signal_def)

lemma execute_trades_events:
  "execute_trades xs s = run_events (map (\<lambda>(symb, sg, pr, ts). Exec symb sg pr ts) xs) s"
proof (induction xs arbitrary: s)
  case Nil
  then show ?case by simp
next
  case (Cons x xs)
  obtain symb sg pr ts where x: "x = (symb, sg, pr, ts)" by (cases x) auto
  show ?case
    by (cases "execute_trade symb sg pr ts s") (simp_all add: x Cons.IH)
qed

lemma execute_signals_events:
  "execute_signals False cp ts sigs s = run_events (signal_events cp ts sigs) s"
proof (induction sigs arbitrary: s)
  case Nil
  then show ?case by (simp add: signal_events_def)
next
  case (Cons a sigs)
  obtain symb sg where a: "a = (symb, sg)" by (cases a)
  show ?case
  proof (cases "cp symb")
    case None
    then show ?thesis using Cons.IH [of s] by (simp add: a signal_events_def)
  next
    case (Some pr)
    then show ?thesis
      using Cons.IH
      by (cases "execute_trade_float (\<lambda>x. x) False symb sg pr ts s")
        (simp_all add: a signal_events_def execute_trade_def)
  qed
qed

text \<open>The kind of the price matters at price 0 only.\<close>

lemma execute_trade_float_numpy:
  "pr \<noteq> 0 \<Longrightarrow>
   execute_trade_float rnd True symb sg pr ts s = execute_trade_float rnd False symb sg pr ts s"
  by (simp add: execute_trade_float_def)

lemma execute_signals_numpy:
  assumes "\<forall>symb p. cp symb = Some p \<longrightarrow> p \<noteq> 0"
  shows "execute_signals True cp ts sigs s = execute_signals False cp ts sigs s"
proof (induction sigs arbitrary: s)
  case Nil
  then show ?case by simp
next
  case (Cons a sigs)
  obtain symb sg where a: "a = (symb, sg)" by (cases a)
  show ?case
  proof (cases "cp symb")
    case None
    then show ?thesis using Cons.IH by (simp add: a)
  next
    case (Some pr)
    with assms have "pr \<noteq> 0" by blast
    then show ?thesis
      using Cons.IH Some
      by (cases "execute_trade_float (\<lambda>x. x) False symb sg pr ts s")
        (simp_all add: a execute_trade_float_numpy)
  qed
qed

lemma process_day_events:
  assumes "update_portfolio_value (prices_at hdata t) s = Ok s1"
    and "algorithm t hdata (portfolio s1) = Inr sigs"
    and "\<forall>symb p. prices_at hdata t symb = Some p \<longrightarrow> p \<noteq> 0"
  shows "process_day algorithm t hdata s =
     run_events (Mark (prices_at hdata t) # signal_events (prices_at hdata t) t sigs) s"
  using assms(1,2)
  by (simp add: process_day_def execute_signals_numpy [OF assms(3)] execute_signals_events)

end
